theory Spec2Isabelle
  imports Main
begin

section \<open>Domain model: Family and its children list\<close>

text \<open>
  \<^verbatim>\<open>src/application/domain/model/family.ts\<close>.  A \<^verbatim>\<open>Child\<close> is identified by its
  \<^verbatim>\<open>id\<close>, which is \<^verbatim>\<open>string | undefined\<close>; \<open>None\<close> stands for \<^verbatim>\<open>undefined\<close>.
  The private field \<^verbatim>\<open>_children\<close> is \<^verbatim>\<open>Array<Child> | undefined\<close>.
\<close>

record Child =
  child_id :: "string option"
  child_username :: "string option"

record Family =
  children :: "Child list option"

text \<open>
  \<^verbatim>\<open>Array.prototype.indexOf\<close>: the first index holding a value strictly equal to
  the one searched, \<open>-1\<close> when there is none.
\<close>

fun indexOf :: "'a list \<Rightarrow> 'a \<Rightarrow> int" where
  "indexOf [] a = -1"
| "indexOf (x # xs) a =
     (if x = a then 0 else (let i = indexOf xs a in if i < 0 then -1 else i + 1))"

text \<open>
  \<^verbatim>\<open>Array.prototype.filter\<close> with the three-argument callback
  \<^verbatim>\<open>(obj, pos, arr) => ...\<close>.
\<close>

definition filter_pos :: "('a \<Rightarrow> nat \<Rightarrow> 'a list \<Rightarrow> bool) \<Rightarrow> 'a list \<Rightarrow> 'a list" where
  "filter_pos p arr = map fst (filter (\<lambda>(obj, pos). p obj pos arr) (zip arr [0..<length arr]))"

text \<open>
  \<^verbatim>\<open>
  public removesRepeatedChildren(children: Array<Child>): Array<Child> {
      return children.filter((obj, pos, arr) => {
          return arr.map(group => group.id).indexOf(obj.id) === pos
      })
  }
  \<close>
\<close>

definition removesRepeatedChildren :: "Child list \<Rightarrow> Child list" where
  "removesRepeatedChildren cs =
     filter_pos (\<lambda>obj pos arr. indexOf (map child_id arr) (child_id obj) = int pos) cs"

text \<open>
  The setter: \<^verbatim>\<open>this._children = value && value instanceof Array ?
  this.removesRepeatedChildren(value) : value\<close>.  An array, even an empty one, is
  truthy; \<^verbatim>\<open>undefined\<close> is stored as it is.
\<close>

definition set_children :: "Child list option \<Rightarrow> Family \<Rightarrow> Family" where
  "set_children v f =
     f\<lparr>children := (case v of None \<Rightarrow> None | Some cs \<Rightarrow> Some (removesRepeatedChildren cs))\<rparr>"

text \<open>
  \<^verbatim>\<open>
  public addChild(child: Child): void {
      if (!this.children) this.children = []
      this.children.push(child)
      this.children = this.removesRepeatedChildren(this.children)
  }
  \<close>
  The getter returns the array held in \<^verbatim>\<open>_children\<close> itself, so \<^verbatim>\<open>push\<close> extends
  the stored list in place before the setter is called again.
\<close>

definition addChild :: "Child \<Rightarrow> Family \<Rightarrow> Family" where
  "addChild child f =
     (let f1 = (case children f of None \<Rightarrow> set_children (Some []) f | Some _ \<Rightarrow> f) in
      case children f1 of
        None \<Rightarrow> f1
      | Some cs \<Rightarrow>
          (let f2 = f1\<lparr>children := Some (cs @ [child])\<rparr> in
           case children f2 of
             None \<Rightarrow> f2
           | Some cs2 \<Rightarrow> set_children (Some (removesRepeatedChildren cs2)) f2))"

text \<open>
  The specification's reading of the de-duplication: walk the list from the front, keep
  an entry and drop every later entry with the same key.
\<close>

fun keep_first :: "('a \<Rightarrow> 'k) \<Rightarrow> 'a list \<Rightarrow> 'a list" where
  "keep_first key [] = []"
| "keep_first key (x # xs) = x # filter (\<lambda>y. key y \<noteq> key x) (keep_first key xs)"

definition children_distinct :: "Family \<Rightarrow> bool" where
  "children_distinct f =
     (case children f of None \<Rightarrow> True | Some cs \<Rightarrow> distinct (map child_id cs))"

section \<open>JavaScript values, promises and exceptions\<close>

text \<open>
  A \<^verbatim>\<open>Date\<close> is represented by its ISO-8601 rendering, which is what
  \<^verbatim>\<open>JSON.stringify\<close> writes for it.
\<close>

type_synonym date = string

datatype json =
    JUndefined
  | JNull
  | JBool bool
  | JNumber int
  | JString string
  | JDate date
  | JArray "json list"
  | JObject "(string \<times> json) list"

text \<open>
  \<^verbatim>\<open>JSON.parse(JSON.stringify(v))\<close>: members whose value is \<^verbatim>\<open>undefined\<close> are
  dropped from objects, \<^verbatim>\<open>undefined\<close> array elements become \<^verbatim>\<open>null\<close>, a date
  becomes its ISO string.  The services apply it to objects only (on \<^verbatim>\<open>undefined\<close>
  itself \<^verbatim>\<open>JSON.parse\<close> would throw).
\<close>

primrec json_clone :: "json \<Rightarrow> json" where
  "json_clone JUndefined = JUndefined"
| "json_clone JNull = JNull"
| "json_clone (JBool b) = JBool b"
| "json_clone (JNumber n) = JNumber n"
| "json_clone (JString s) = JString s"
| "json_clone (JDate d) = JString d"
| "json_clone (JArray xs) =
     JArray (map (\<lambda>x. if x = JUndefined then JNull else x) (map json_clone xs))"
| "json_clone (JObject kvs) =
     JObject (filter (\<lambda>(k, v). v \<noteq> JUndefined) (map (map_prod id json_clone) kvs))"

text \<open>
  Property assignment \<^verbatim>\<open>obj.k = v\<close> on a plain object: an existing member is
  overwritten in place, a new one is appended.
\<close>

fun obj_set :: "(string \<times> json) list \<Rightarrow> string \<Rightarrow> json \<Rightarrow> (string \<times> json) list" where
  "obj_set [] k v = [(k, v)]"
| "obj_set ((k', v') # kvs) k v =
     (if k' = k then (k, v) # kvs else (k', v') # obj_set kvs k v)"

text \<open>Member access \<^verbatim>\<open>obj.k\<close>; \<open>None\<close> when the value is not an object with that member.\<close>

fun member :: "json \<Rightarrow> string \<Rightarrow> json option" where
  "member (JObject kvs) k = map_of kvs k"
| "member _ k = None"

text \<open>
  The exceptions of \<^verbatim>\<open>application/domain/exception\<close> (message, description), and any
  other thrown \<^verbatim>\<open>Error\<close>.  The texts of \<^verbatim>\<open>utils/strings\<close> are not under src/; a
  constant of that table is written by its qualified name.
\<close>

datatype exn =
    ValidationException string string
  | ConflictException string
  | JsError string

fun message :: "exn \<Rightarrow> string" where
  "message (ValidationException m d) = m"
| "message (ConflictException m) = m"
| "message (JsError m) = m"

text \<open>
  What awaiting a promise gives: its value, the rejection that \<^verbatim>\<open>await\<close> rethrows,
  or nothing at all when the promise never settles.
\<close>

datatype 'a promise = Resolved 'a | Rejected exn | Pending

text \<open>
  A call of a method that returns a promise, where the promise is not awaited on the spot
  but given handlers (\<^verbatim>\<open>.then(...).catch(...)\<close>): the call itself may throw before
  it returns anything (the receiver is \<^verbatim>\<open>undefined\<close>, the method fails before it
  builds its promise), and then no handler is attached and the exception is the caller's;
  or it returns a promise, whose rejection goes to the \<^verbatim>\<open>catch\<close> handler.  For a call
  that is awaited on the spot the two failures are the same to the caller, and a promise
  is enough.
\<close>

datatype 'a call = Throws exn | Returns "'a promise"


section \<open>Entities and integration events\<close>

record Institution =
  institution_id :: "string option"

record ChildrenGroup =
  group_id :: "string option"

text \<open>
  \<^verbatim>\<open>User\<close> with the \<^verbatim>\<open>children_groups\<close> that both \<^verbatim>\<open>Educator\<close> and
  \<^verbatim>\<open>HealthProfessional\<close> add to it (see the entity mappers); one record serves for
  both subclasses, which are not under src/.
\<close>

record User =
  user_id :: "string option"
  username :: "string option"
  password :: "string option"
  user_type :: "string option"
  institution :: "Institution option"
  last_login :: "date option"
  children_groups :: "ChildrenGroup list option"

datatype EventType = USERS | INSTITUTIONS

fun EventType_value :: "EventType \<Rightarrow> string" where
  "EventType_value USERS = ''users''"
| "EventType_value INSTITUTIONS = ''institutions''"

text \<open>
  \<^verbatim>\<open>
  export abstract class IntegrationEvent<T> implements IJSONSerializable {
      protected constructor(readonly event_name: string, readonly type: EventType,
                            readonly timestamp?: Date) { }
      public toJSON(): any {
          return { event_name: this.event_name, timestamp: this.timestamp, type: this.type }
      }
  }
  \<close>
\<close>

record IntegrationEvent =
  event_name :: string
  event_type :: EventType
  timestamp :: "date option"

definition IntegrationEvent_toJSON :: "'a IntegrationEvent_scheme \<Rightarrow> (string \<times> json) list" where
  "IntegrationEvent_toJSON ev =
     [(''event_name'', JString (event_name ev)),
      (''timestamp'', (case timestamp ev of None \<Rightarrow> JUndefined | Some d \<Rightarrow> JDate d)),
      (''type'', JString (EventType_value (event_type ev)))]"

text \<open>
  Modelled from the spec: the class \<^verbatim>\<open>UserUpdateEvent\<close> is not under src/ (only its
  use \<^verbatim>\<open>new UserUpdateEvent(name, new Date(), entity)\<close> is).  By sections 3 and 6 of
  the specification an event carries \<^verbatim>\<open>event_name\<close>, \<^verbatim>\<open>type\<close> (here the users
  category), \<^verbatim>\<open>timestamp\<close> and the serialized entity under its resource key; the
  serializer of the entity is a parameter.
\<close>

record UserUpdateEvent = IntegrationEvent +
  user :: "User option"

definition new_UserUpdateEvent :: "string \<Rightarrow> date option \<Rightarrow> User option \<Rightarrow> UserUpdateEvent" where
  "new_UserUpdateEvent name ts u =
     \<lparr>event_name = name, event_type = USERS, timestamp = ts, user = u\<rparr>"

definition UserUpdateEvent_toJSON ::
  "(User \<Rightarrow> json) \<Rightarrow> UserUpdateEvent \<Rightarrow> (string \<times> json) list" where
  "UserUpdateEvent_toJSON entity_json ev =
     IntegrationEvent_toJSON ev
     @ [(''user'', (case user ev of None \<Rightarrow> JUndefined | Some u \<Rightarrow> entity_json u))]"


section \<open>Collaborators and observable effects\<close>

datatype level = INFO | WARN | ERROR

text \<open>
  A log line is kept as the parts its template literal is built from;
  \<open>Stringify v\<close> stands for the text \<^verbatim>\<open>JSON.stringify(v)\<close>.
\<close>

datatype piece = Txt string | Stringify json

type_synonym log_entry = "level \<times> piece list"

datatype bus_call =
    Publish UserUpdateEvent string
  | PubUpdateEducator User

text \<open>
  Everything a service call does to the outside: the calls made on the bus, the calls of
  \<^verbatim>\<open>integrationEventRepository.create\<close> and the records the store holds, the log, the
  calls of the user repository's \<^verbatim>\<open>update\<close> and of \<^verbatim>\<open>childrenGroupService.remove\<close>.
\<close>

record world =
  bus_calls :: "bus_call list"
  store_calls :: "json list"
  store :: "json list"
  log :: "log_entry list"
  user_updates :: "User list"
  group_removes :: "string list"

text \<open>
  The collaborators injected into a service, each as the outcome it gives for the
  arguments it is called with.  A method whose call is awaited on the spot is given by how
  the awaited promise settles; the two methods whose promise is given handlers instead,
  \<^verbatim>\<open>bus.pubUpdateEducator\<close> and \<^verbatim>\<open>integrationEventRepository.create\<close>, are given
  as calls that may also throw.  The validators, the entity method
  \<^verbatim>\<open>removeChildrenGroup\<close> and the entity serializer are code that is not under src/
  and are parameters as well; a validator returns the exception it throws, if any.
\<close>

record env =
  UpdateUserValidator_validate :: "User \<Rightarrow> exn option"
  UpdateEducatorValidator_validate :: "User \<Rightarrow> exn option"
  ObjectIdValidator_validate :: "string \<Rightarrow> string option \<Rightarrow> exn option"
  repository_checkExist :: "User \<Rightarrow> bool promise"
  repository_update :: "User \<Rightarrow> User option promise"
  repository_findById :: "string \<Rightarrow> User option promise"
  institutionRepository_checkExist :: "Institution \<Rightarrow> bool promise"
  childrenGroupService_remove :: "string \<Rightarrow> bool promise"
  removeChildrenGroup :: "User \<Rightarrow> ChildrenGroup \<Rightarrow> User"
  eventBus_publish :: "UserUpdateEvent \<Rightarrow> string \<Rightarrow> bool promise"
  eventBus_pubUpdateEducator :: "User \<Rightarrow> unit call"
  integrationEventRepository_create :: "json \<Rightarrow> unit call"
  new_Date :: date
  entity_toJSON :: "User \<Rightarrow> json"

text \<open>
  An asynchronous computation: from the effects so far to its outcome and the effects
  after it.  \<open>await\<close> continues with the value of a settled computation; a rejection
  leaves the enclosing \<^verbatim>\<open>async\<close> function (every \<^verbatim>\<open>catch\<close> block of the services
  is \<^verbatim>\<open>return Promise.reject(err)\<close>), and nothing after a promise that never settles
  is run.
\<close>

type_synonym 'a task = "world \<Rightarrow> 'a promise \<times> world"

definition await :: "'a task \<Rightarrow> ('a \<Rightarrow> 'b task) \<Rightarrow> 'b task" where
  "await m k w =
     (case m w of
        (Resolved v, w') \<Rightarrow> k v w'
      | (Rejected e, w') \<Rightarrow> (Rejected e, w')
      | (Pending, w') \<Rightarrow> (Pending, w'))"

definition resolve :: "'a \<Rightarrow> 'a task" where
  "resolve v w = (Resolved v, w)"

definition reject :: "exn \<Rightarrow> 'a task" where
  "reject e w = (Rejected e, w)"

definition throw_if :: "exn option \<Rightarrow> unit task" where
  "throw_if r = (case r of None \<Rightarrow> resolve () | Some e \<Rightarrow> reject e)"

definition logger :: "level \<Rightarrow> piece list \<Rightarrow> world \<Rightarrow> world" where
  "logger l ps w = w\<lparr>log := log w @ [(l, ps)]\<rparr>"

definition call_checkExist :: "env \<Rightarrow> User \<Rightarrow> bool task" where
  "call_checkExist env u w = (repository_checkExist env u, w)"

definition call_institution_checkExist :: "env \<Rightarrow> Institution \<Rightarrow> bool task" where
  "call_institution_checkExist env i w = (institutionRepository_checkExist env i, w)"

definition call_findById :: "env \<Rightarrow> string \<Rightarrow> User option task" where
  "call_findById env i w = (repository_findById env i, w)"

definition call_update :: "env \<Rightarrow> User \<Rightarrow> User option task" where
  "call_update env u w = (repository_update env u, w\<lparr>user_updates := user_updates w @ [u]\<rparr>)"

definition call_remove :: "env \<Rightarrow> string \<Rightarrow> bool task" where
  "call_remove env g w =
     (childrenGroupService_remove env g, w\<lparr>group_removes := group_removes w @ [g]\<rparr>)"

definition call_publish :: "env \<Rightarrow> UserUpdateEvent \<Rightarrow> string \<Rightarrow> bool task" where
  "call_publish env ev rk w =
     (eventBus_publish env ev rk, w\<lparr>bus_calls := bus_calls w @ [Publish ev rk]\<rparr>)"

text \<open>JavaScript's rendering of \<^verbatim>\<open>${x}\<close> for \<^verbatim>\<open>x: string | undefined\<close>.\<close>

definition template :: "string option \<Rightarrow> string" where
  "template s = (case s of None \<Rightarrow> ''undefined'' | Some t \<Rightarrow> t)"


section \<open>HealthProfessionalService and EducatorService\<close>

text \<open>
  The institution check both services make:
  \<^verbatim>\<open>
  if (user.institution && user.institution.id !== undefined) {
      const institutionExist = await this._institutionRepository.checkExist(user.institution)
      if (!institutionExist) throw new ValidationException(
          Strings.INSTITUTION.REGISTER_REQUIRED, Strings.INSTITUTION.ALERT_REGISTER_REQUIRED)
  }
  \<close>
\<close>

definition check_institution :: "env \<Rightarrow> User \<Rightarrow> unit task" where
  "check_institution env u =
     (case institution u of
        None \<Rightarrow> resolve ()
      | Some i \<Rightarrow>
          if institution_id i \<noteq> None then
            await (call_institution_checkExist env i) (\<lambda>institutionExist.
              if \<not> institutionExist then
                reject (ValidationException ''Strings.INSTITUTION.REGISTER_REQUIRED''
                          ''Strings.INSTITUTION.ALERT_REGISTER_REQUIRED'')
              else resolve ())
          else resolve ())"

text \<open>
  \<^verbatim>\<open>
  private saveEvent(event: UserUpdateEvent<HealthProfessional>): void {
      const saveEvent: any = event.toJSON()
      saveEvent.__operation = 'publish'
      saveEvent.__routing_key = 'healthprofessionals.update'
      this._integrationEventRepository
          .create(JSON.parse(JSON.stringify(saveEvent)))
          .then(() => { this._logger.warn(`Could not publish the event named
              ${event.event_name}.`.concat(` The event was saved in the database for a
              possible recovery.`)) })
          .catch(err => { this._logger.error(`There was an error trying to save the name
              event: ${event.event_name}.`.concat(`Error: ${err.message}. Event:
              ${JSON.stringify(saveEvent)}`)) })
  }
  \<close>
  The promise chain is not awaited; the effects recorded are the ones it has once the
  store has answered (none beyond the call when it never answers).  There is no
  \<^verbatim>\<open>try\<close> in \<^verbatim>\<open>saveEvent\<close>: when the call of \<^verbatim>\<open>create\<close> itself throws, no handler
  has been attached, nothing is logged and the exception leaves \<^verbatim>\<open>saveEvent\<close>.  The
  serialization is a total function here (the event classes are modelled from the spec,
  and \<^verbatim>\<open>JSON.stringify\<close> does not fail on these values).
\<close>

definition saveEvent_json :: "env \<Rightarrow> UserUpdateEvent \<Rightarrow> (string \<times> json) list" where
  "saveEvent_json env event =
     obj_set
       (obj_set (UserUpdateEvent_toJSON (entity_toJSON env) event)
          ''__operation'' (JString ''publish''))
       ''__routing_key'' (JString ''healthprofessionals.update'')"

definition saveEvent :: "env \<Rightarrow> UserUpdateEvent \<Rightarrow> unit task" where
  "saveEvent env event w =
     (let saveEvent = saveEvent_json env event;
          persisted_json = json_clone (JObject saveEvent);
          w1 = w\<lparr>store_calls := store_calls w @ [persisted_json]\<rparr>
      in case integrationEventRepository_create env persisted_json of
           Throws err \<Rightarrow> (Rejected err, w1)
         | Returns created \<Rightarrow>
             (Resolved (),
              (case created of
                 Resolved _ \<Rightarrow>
                   logger WARN
                     [Txt ''Could not publish the event named '', Txt (event_name event),
                      Txt ''.'',
                      Txt '' The event was saved in the database for a possible recovery.'']
                     (w1\<lparr>store := store w1 @ [persisted_json]\<rparr>)
               | Rejected err \<Rightarrow>
                   logger ERROR
                     [Txt ''There was an error trying to save the name event: '',
                      Txt (event_name event), Txt ''.'',
                      Txt ''Error: '', Txt (message err), Txt ''. Event: '',
                      Stringify (JObject saveEvent)]
                     w1
               | Pending \<Rightarrow> w1)))"

text \<open>
  Steps 1 to 3 of \<^verbatim>\<open>HealthProfessionalService.update\<close>, the \<^verbatim>\<open>try\<close> block:
  \<^verbatim>\<open>
  UpdateUserValidator.validate(healthProfessional)
  const id: string = healthProfessional.id!
  healthProfessional.id = undefined
  const healthProfessionalExist = await this._healthProfessionalRepository.checkExist(healthProfessional)
  if (healthProfessionalExist) throw new ConflictException(Strings.HEALTH_PROFESSIONAL.ALREADY_REGISTERED)
  healthProfessional.id = id
  (the institution check)
  \<close>
  The id is taken off the entity for the existence check only; every later step sees the
  entity as it was passed in.  (When the check throws, the caller's object is left without
  its id; the rejected promise does not show it and it is not recorded here.)
\<close>

definition HealthProfessionalService_update_checks :: "env \<Rightarrow> User \<Rightarrow> unit task" where
  "HealthProfessionalService_update_checks env healthProfessional =
     await (throw_if (UpdateUserValidator_validate env healthProfessional)) (\<lambda>_.
     await (call_checkExist env (healthProfessional\<lparr>user_id := None\<rparr>)) (\<lambda>healthProfessionalExist.
       if healthProfessionalExist then
         reject (ConflictException ''Strings.HEALTH_PROFESSIONAL.ALREADY_REGISTERED'')
       else check_institution env healthProfessional))"

text \<open>
  Steps 4 to 6:
  \<^verbatim>\<open>
  const healthProfessionalUp = await this._healthProfessionalRepository.update(healthProfessional)
  if (healthProfessionalUp) {
      const event = new UserUpdateEvent<HealthProfessional>(
          'HealthProfessionalUpdateEvent', new Date(), healthProfessionalUp)
      if (!(await this._eventBus.publish(event, 'healthprofessionals.update'))) {
          this.saveEvent(event)
      } else {
          this._logger.info(`User of type Health Professional with ID:
              ${healthProfessionalUp.id} has been updated`.concat(' and published on event bus...'))
      }
  }
  return Promise.resolve(healthProfessionalUp)
  \<close>
  These steps are outside the \<^verbatim>\<open>try\<close> block: an exception thrown here, by an awaited
  promise or by \<^verbatim>\<open>saveEvent\<close>, is the rejection of \<^verbatim>\<open>update\<close>.
\<close>

definition HealthProfessionalService_update :: "env \<Rightarrow> User \<Rightarrow> User option task" where
  "HealthProfessionalService_update env healthProfessional =
     await (HealthProfessionalService_update_checks env healthProfessional) (\<lambda>_.
     await (call_update env healthProfessional) (\<lambda>healthProfessionalUp.
       case healthProfessionalUp of
         None \<Rightarrow> resolve None
       | Some up \<Rightarrow>
           (let event = new_UserUpdateEvent ''HealthProfessionalUpdateEvent''
                          (Some (new_Date env)) (Some up)
            in await (call_publish env event ''healthprofessionals.update'') (\<lambda>published.
                 if \<not> published then
                   await (saveEvent env event) (\<lambda>_. resolve (Some up))
                 else
                   (\<lambda>w. resolve (Some up)
                      (logger INFO
                         [Txt ''User of type Health Professional with ID: '',
                          Txt (template (user_id up)), Txt '' has been updated'',
                          Txt '' and published on event bus...''] w))))))"

text \<open>
  \<^verbatim>\<open>EducatorService.update\<close>; the whole body is one \<^verbatim>\<open>try\<close> block.
  \<^verbatim>\<open>
  UpdateEducatorValidator.validate(educator)
  if (!(await this._educatorRepository.checkExist(educator))) return Promise.resolve(undefined)
  if (educator.username) {
      const id: string = educator.id!
      educator.id = undefined
      if (await this._educatorRepository.checkExist(educator))
          throw new ConflictException(Strings.EDUCATOR.ALREADY_REGISTERED)
      educator.id = id
  }
  (the institution check)
  const educatorUp = await this._educatorRepository.update(educator)
  if (educatorUp) {
      this._eventBus.bus.pubUpdateEducator(educatorUp)
          .then(() => { this._logger.info(`User of type Educator with ID: ${educatorUp.id}
              has been updated`.concat(' and published on event bus...')) })
          .catch((err) => { this._logger.error(`Error trying to publish event
              UpdateEducator. ${err.message}`) })
  }
  return Promise.resolve(educatorUp)
  \<close>
  \<^verbatim>\<open>educator.username\<close> is truthy when it is a non-empty string.  The call of
  \<^verbatim>\<open>pubUpdateEducator\<close> is inside the \<^verbatim>\<open>try\<close>: when the call itself throws
  (\<^verbatim>\<open>this._eventBus.bus\<close> is \<^verbatim>\<open>undefined\<close>, say), no handler has been attached,
  nothing is logged, and the outer \<^verbatim>\<open>catch\<close> rejects \<^verbatim>\<open>update\<close> with the
  exception.
\<close>

definition pubUpdateEducator_chain :: "env \<Rightarrow> User \<Rightarrow> unit task" where
  "pubUpdateEducator_chain env educatorUp w =
     (let w1 = w\<lparr>bus_calls := bus_calls w @ [PubUpdateEducator educatorUp]\<rparr>
      in case eventBus_pubUpdateEducator env educatorUp of
           Throws err \<Rightarrow> (Rejected err, w1)
         | Returns published \<Rightarrow>
             (Resolved (),
              (case published of
                 Resolved _ \<Rightarrow>
                   logger INFO
                     [Txt ''User of type Educator with ID: '',
                      Txt (template (user_id educatorUp)),
                      Txt '' has been updated'', Txt '' and published on event bus...''] w1
               | Rejected err \<Rightarrow>
                   logger ERROR
                     [Txt ''Error trying to publish event UpdateEducator. '',
                      Txt (message err)] w1
               | Pending \<Rightarrow> w1)))"

definition EducatorService_update :: "env \<Rightarrow> User \<Rightarrow> User option task" where
  "EducatorService_update env educator =
     await (throw_if (UpdateEducatorValidator_validate env educator)) (\<lambda>_.
     await (call_checkExist env educator) (\<lambda>educatorExist.
       if \<not> educatorExist then resolve None
       else
         await
           (if (case username educator of None \<Rightarrow> False | Some n \<Rightarrow> n \<noteq> []) then
              await (call_checkExist env (educator\<lparr>user_id := None\<rparr>)) (\<lambda>usernameTaken.
                if usernameTaken then
                  reject (ConflictException ''Strings.EDUCATOR.ALREADY_REGISTERED'')
                else resolve ())
            else resolve ()) (\<lambda>_.
         await (check_institution env educator) (\<lambda>_.
         await (call_update env educator) (\<lambda>educatorUp.
           case educatorUp of
             None \<Rightarrow> resolve None
           | Some up \<Rightarrow>
               await (pubUpdateEducator_chain env up) (\<lambda>_. resolve (Some up)))))))"

text \<open>
  \<^verbatim>\<open>deleteChildrenGroup\<close>, the same in both services but for the message handed to
  the id validator (none in \<^verbatim>\<open>HealthProfessionalService\<close>):
  \<^verbatim>\<open>
  ObjectIdValidator.validate(userId, ...)
  ObjectIdValidator.validate(childrenGroupId, ...)
  const user = await this._repository.findById(userId)
  if (!user) return Promise.resolve(true)
  const removeResult: boolean = await this._childrenGroupService.remove(childrenGroupId)
  if (removeResult) {
      const childrenGroup: ChildrenGroup = new ChildrenGroup()
      childrenGroup.id = childrenGroupId
      await user.removeChildrenGroup(childrenGroup)
      await this._repository.update(user)
  }
  return Promise.resolve(removeResult)
  \<close>
\<close>

definition deleteChildrenGroup_body ::
  "env \<Rightarrow> string option \<Rightarrow> string option \<Rightarrow> string \<Rightarrow> string \<Rightarrow> bool task" where
  "deleteChildrenGroup_body env userMessage groupMessage userId childrenGroupId =
     await (throw_if (ObjectIdValidator_validate env userId userMessage)) (\<lambda>_.
     await (throw_if (ObjectIdValidator_validate env childrenGroupId groupMessage)) (\<lambda>_.
     await (call_findById env userId) (\<lambda>found.
       case found of
         None \<Rightarrow> resolve True
       | Some u \<Rightarrow>
           await (call_remove env childrenGroupId) (\<lambda>removeResult.
             if removeResult then
               await (call_update env
                        (removeChildrenGroup env u \<lparr>group_id = Some childrenGroupId\<rparr>)) (\<lambda>_.
                 resolve removeResult)
             else resolve removeResult))))"

definition HealthProfessionalService_deleteChildrenGroup ::
  "env \<Rightarrow> string \<Rightarrow> string \<Rightarrow> bool task" where
  "HealthProfessionalService_deleteChildrenGroup env healthProfessionalId childrenGroupId =
     deleteChildrenGroup_body env None None healthProfessionalId childrenGroupId"

definition EducatorService_deleteChildrenGroup ::
  "env \<Rightarrow> string \<Rightarrow> string \<Rightarrow> bool task" where
  "EducatorService_deleteChildrenGroup env educatorId childrenGroupId =
     deleteChildrenGroup_body env
       (Some ''Strings.EDUCATOR.PARAM_ID_NOT_VALID_FORMAT'')
       (Some ''Strings.CHILDREN_GROUP.PARAM_ID_NOT_VALID_FORMAT'')
       educatorId childrenGroupId"


section \<open>The integration-event store and the retry task\<close>

text \<open>
  Modelled from the spec: the integration-event repository and the event-bus retry task
  (the task bound to \<^verbatim>\<open>Identifier.EVENT_BUS_TASK\<close> that
  \<^verbatim>\<open>background.service.ts\<close> starts) are not under src/.  Sections 3, 4.1 and 4.3 of
  the specification: a persisted event has the fields of the serialized event and the two
  operational fields; \<^verbatim>\<open>findAll\<close> returns all persisted events; \<^verbatim>\<open>deleteById\<close>
  removes one record and returns false when there is none; one run of the task fetches
  all persisted events and, for each one independently, re-derives routing key and
  payload from the stored record, calls \<^verbatim>\<open>bus.publish\<close>, deletes the record by id on
  success and on failure leaves it and logs a warning with the event name and the error.
\<close>

record StoredEvent =
  stored_id :: string
  stored_event :: "(string \<times> json) list"
  stored_operation :: string
  stored_routing_key :: string

definition Store_findAll :: "StoredEvent list \<Rightarrow> StoredEvent list" where
  "Store_findAll records = records"

fun remove_by_id :: "string \<Rightarrow> StoredEvent list \<Rightarrow> StoredEvent list" where
  "remove_by_id i [] = []"
| "remove_by_id i (r # rs) = (if stored_id r = i then rs else r # remove_by_id i rs)"

definition Store_deleteById :: "string \<Rightarrow> StoredEvent list \<Rightarrow> bool \<times> StoredEvent list" where
  "Store_deleteById i records =
     (if i \<in> set (map stored_id records) then (True, remove_by_id i records)
      else (False, records))"

record retry_world =
  persisted :: "StoredEvent list"
  republished :: "((string \<times> json) list \<times> string) list"
  warnings :: "log_entry list"

definition stored_event_name :: "StoredEvent \<Rightarrow> string" where
  "stored_event_name ev =
     (case map_of (stored_event ev) ''event_name'' of Some (JString n) \<Rightarrow> n | _ \<Rightarrow> ''undefined'')"

text \<open>
  One item of the batch.  \<open>publish ev\<close> is the outcome of the republish attempted for the
  stored event \<open>ev\<close> in this run: delivered, refused (\<^verbatim>\<open>false\<close>), thrown, or still
  unanswered when the run is over.
\<close>

definition retry_event ::
  "(StoredEvent \<Rightarrow> bool promise) \<Rightarrow> StoredEvent \<Rightarrow> retry_world \<Rightarrow> retry_world" where
  "retry_event publish ev w =
     (let w1 = w\<lparr>republished := republished w @ [(stored_event ev, stored_routing_key ev)]\<rparr>
      in case publish ev of
           Resolved ok \<Rightarrow>
             if ok then w1\<lparr>persisted := snd (Store_deleteById (stored_id ev) (persisted w1))\<rparr>
             else w1\<lparr>warnings := warnings w1 @ [(WARN, [Txt (stored_event_name ev)])]\<rparr>
         | Rejected err \<Rightarrow>
             w1\<lparr>warnings := warnings w1 @
                  [(WARN, [Txt (stored_event_name ev), Txt (message err)])]\<rparr>
         | Pending \<Rightarrow> w1)"

fun retry_events ::
  "(StoredEvent \<Rightarrow> bool promise) \<Rightarrow> StoredEvent list \<Rightarrow> retry_world \<Rightarrow> retry_world" where
  "retry_events publish [] w = w"
| "retry_events publish (ev # evs) w = retry_events publish evs (retry_event publish ev w)"

definition EventBusTask_run :: "(StoredEvent \<Rightarrow> bool promise) \<Rightarrow> retry_world \<Rightarrow> retry_world" where
  "EventBusTask_run publish w = retry_events publish (Store_findAll (persisted w)) w"


section \<open>The event built by an update\<close>

text \<open>
  The event that step 5 of \<^verbatim>\<open>HealthProfessionalService.update\<close> builds for the entity
  \<open>up\<close> returned by the repository.
\<close>

definition HealthProfessionalUpdateEvent :: "env \<Rightarrow> User \<Rightarrow> UserUpdateEvent" where
  "HealthProfessionalUpdateEvent env up =
     new_UserUpdateEvent ''HealthProfessionalUpdateEvent'' (Some (new_Date env)) (Some up)"


section \<open>A concrete environment\<close>

text \<open>
  An environment in which every collaborator works: the validators accept the entity,
  an id is well formed when it has 24 characters (the integration tests reject the id
  \<^verbatim>\<open>123\<close> with \<^verbatim>\<open>PARAM_ID_NOT_VALID_FORMAT\<close>), a user exists when it is looked up
  with an id and no user name is taken, the repository returns the entity it was given,
  the bus publishes and the store accepts.  The instances below vary it field by field.
\<close>

definition User_toJSON :: "User \<Rightarrow> json" where
  "User_toJSON u =
     JObject
       [(''id'', (case user_id u of None \<Rightarrow> JUndefined | Some i \<Rightarrow> JString i)),
        (''username'', (case username u of None \<Rightarrow> JUndefined | Some n \<Rightarrow> JString n)),
        (''type'', (case user_type u of None \<Rightarrow> JUndefined | Some t \<Rightarrow> JString t)),
        (''institution_id'',
           (case institution u of
              None \<Rightarrow> JUndefined
            | Some i \<Rightarrow> (case institution_id i of None \<Rightarrow> JUndefined | Some x \<Rightarrow> JString x))),
        (''last_login'', (case last_login u of None \<Rightarrow> JUndefined | Some d \<Rightarrow> JDate d))]"

definition env0 :: env where
  "env0 =
     \<lparr>UpdateUserValidator_validate = (\<lambda>u. None),
      UpdateEducatorValidator_validate = (\<lambda>u. None),
      ObjectIdValidator_validate =
        (\<lambda>i m. if length i = 24 then None
               else Some (ValidationException
                            (case m of None \<Rightarrow> ''Strings.ERROR_MESSAGE.UUID_NOT_VALID_FORMAT''
                                     | Some t \<Rightarrow> t)
                            ''Strings.ERROR_MESSAGE.UUID_NOT_VALID_FORMAT_DESC'')),
      repository_checkExist = (\<lambda>u. Resolved (user_id u \<noteq> None)),
      repository_update = (\<lambda>u. Resolved (Some u)),
      repository_findById = (\<lambda>i. Resolved None),
      institutionRepository_checkExist = (\<lambda>i. Resolved True),
      childrenGroupService_remove = (\<lambda>g. Resolved True),
      removeChildrenGroup =
        (\<lambda>u g. u\<lparr>children_groups :=
                  map_option (filter (\<lambda>x. group_id x \<noteq> group_id g)) (children_groups u)\<rparr>),
      eventBus_publish = (\<lambda>ev rk. Resolved True),
      eventBus_pubUpdateEducator = (\<lambda>u. Returns (Resolved ())),
      integrationEventRepository_create = (\<lambda>r. Returns (Resolved ())),
      new_Date = ''2019-06-07T19:40:45.124Z'',
      entity_toJSON = User_toJSON\<rparr>"

definition user0 :: User where
  "user0 =
     \<lparr>user_id = Some ''5a62be07de34500146d9c544'',
      username = Some ''H1'',
      password = None,
      user_type = Some ''healthprofessional'',
      institution = Some \<lparr>institution_id = Some ''5a62be07d6f33400146c9b61''\<rparr>,
      last_login = None,
      children_groups = Some []\<rparr>"

definition world0 :: world where
  "world0 =
     \<lparr>bus_calls = [], store_calls = [], store = [], log = [],
      user_updates = [], group_removes = []\<rparr>"

text \<open>The bus refuses the event (\<^verbatim>\<open>publish\<close> resolves \<^verbatim>\<open>false\<close>).\<close>

definition env_bus_false :: env where
  "env_bus_false = env0\<lparr>eventBus_publish := (\<lambda>ev rk. Resolved False)\<rparr>"

text \<open>The bus accepts the event; the same as \<open>env0\<close>, written as an override.\<close>

definition env_bus_true :: env where
  "env_bus_true = env0\<lparr>eventBus_publish := (\<lambda>ev rk. Resolved True)\<rparr>"

text \<open>The bus never answers.\<close>

definition env_bus_pending :: env where
  "env_bus_pending = env0\<lparr>eventBus_publish := (\<lambda>ev rk. Pending)\<rparr>"

definition env_edu_bus_pending :: env where
  "env_edu_bus_pending = env0\<lparr>eventBus_pubUpdateEducator := (\<lambda>u. Returns Pending)\<rparr>"

text \<open>The bus is unreachable: the publish call throws.\<close>

definition env_bus_throws :: env where
  "env_bus_throws =
     env0\<lparr>eventBus_publish := (\<lambda>ev rk. Rejected (JsError ''bus unreachable''))\<rparr>"

definition env_edu_bus_down :: env where
  "env_edu_bus_down =
     env0\<lparr>eventBus_pubUpdateEducator :=
            (\<lambda>u. Returns (Rejected (JsError ''bus unreachable'')))\<rparr>"

text \<open>The repository changes no row.\<close>

definition env_update_none :: env where
  "env_update_none = env0\<lparr>repository_update := (\<lambda>u. Resolved None)\<rparr>"

text \<open>The bus refuses the event and the store rejects the write.\<close>

definition env_store_down :: env where
  "env_store_down =
     env_bus_false\<lparr>integrationEventRepository_create :=
                      (\<lambda>r. Returns (Rejected (JsError ''store unreachable'')))\<rparr>"

text \<open>The record that \<^verbatim>\<open>saveEvent\<close> hands to the store for \<open>user0\<close>.\<close>

definition record0 :: json where
  "record0 =
     JObject
       [(''event_name'', JString ''HealthProfessionalUpdateEvent''),
        (''timestamp'', JString ''2019-06-07T19:40:45.124Z''),
        (''type'', JString ''users''),
        (''user'',
         JObject
           [(''id'', JString ''5a62be07de34500146d9c544''),
            (''username'', JString ''H1''),
            (''type'', JString ''healthprofessional''),
            (''institution_id'', JString ''5a62be07d6f33400146c9b61'')]),
        (''__operation'', JString ''publish''),
        (''__routing_key'', JString ''healthprofessionals.update'')]"

text \<open>The object \<^verbatim>\<open>saveEvent\<close> builds for \<open>user0\<close>, of which \<open>record0\<close> is the clone.\<close>

definition payload0 :: "(string \<times> json) list" where
  "payload0 =
     [(''event_name'', JString ''HealthProfessionalUpdateEvent''),
      (''timestamp'', JDate ''2019-06-07T19:40:45.124Z''),
      (''type'', JString ''users''),
      (''user'',
       JObject
         [(''id'', JString ''5a62be07de34500146d9c544''),
          (''username'', JString ''H1''),
          (''type'', JString ''healthprofessional''),
          (''institution_id'', JString ''5a62be07d6f33400146c9b61''),
          (''last_login'', JUndefined)]),
      (''__operation'', JString ''publish''),
      (''__routing_key'', JString ''healthprofessionals.update'')]"

text \<open>
  Three persisted events and a bus on which the republish of the second one throws while
  the other two are delivered.
\<close>

definition stored1 :: StoredEvent where
  "stored1 =
     \<lparr>stored_id = ''e1'',
      stored_event = [(''event_name'', JString ''HealthProfessionalUpdateEvent'')],
      stored_operation = ''publish'',
      stored_routing_key = ''healthprofessionals.update''\<rparr>"

definition stored2 :: StoredEvent where
  "stored2 =
     \<lparr>stored_id = ''e2'',
      stored_event = [(''event_name'', JString ''UserDeleteEvent'')],
      stored_operation = ''publish'',
      stored_routing_key = ''users.delete''\<rparr>"

definition stored3 :: StoredEvent where
  "stored3 =
     \<lparr>stored_id = ''e3'',
      stored_event = [(''event_name'', JString ''HealthProfessionalUpdateEvent'')],
      stored_operation = ''publish'',
      stored_routing_key = ''healthprofessionals.update''\<rparr>"

definition retry_world0 :: retry_world where
  "retry_world0 = \<lparr>persisted = [stored1, stored2, stored3], republished = [], warnings = []\<rparr>"

definition publish_second_throws :: "StoredEvent \<Rightarrow> bool promise" where
  "publish_second_throws ev =
     (if stored_id ev = ''e2'' then Rejected (JsError ''bus unreachable'') else Resolved True)"


section \<open>Properties of the children list\<close>

lemma indexOf_neg_iff: "indexOf xs a < 0 \<longleftrightarrow> a \<notin> set xs"
  by (induction xs) (auto simp: Let_def)

lemma indexOf_append_in: "a \<in> set xs \<Longrightarrow> indexOf (xs @ ys) a = indexOf xs a"
  by (induction xs) (auto simp: Let_def indexOf_neg_iff)

lemma indexOf_lt: "a \<in> set xs \<Longrightarrow> indexOf xs a < int (length xs)"
  by (induction xs) (auto simp: Let_def indexOf_neg_iff)

lemma indexOf_append_notin:
  "a \<notin> set xs \<Longrightarrow> indexOf (xs @ a # ys) a = int (length xs)"
  by (induction xs) (auto simp: Let_def)

lemma indexOf_first:
  "indexOf (pre @ a # ys) a = int (length pre) \<longleftrightarrow> a \<notin> set pre"
proof
  assume h: "indexOf (pre @ a # ys) a = int (length pre)"
  show "a \<notin> set pre"
  proof
    assume "a \<in> set pre"
    then have "indexOf (pre @ a # ys) a = indexOf pre a" "indexOf pre a < int (length pre)"
      by (simp_all add: indexOf_append_in indexOf_lt)
    with h show False by simp
  qed
next
  assume "a \<notin> set pre"
  then show "indexOf (pre @ a # ys) a = int (length pre)"
    by (rule indexOf_append_notin)
qed

text \<open>
  The position test, run on a suffix \<open>xs\<close> of the array whose prefix \<open>pre\<close> has been
  passed already, keeps the first occurrences of \<open>xs\<close> whose key is not in \<open>pre\<close>.
\<close>

lemma filter_pos_suffix:
  "map fst (filter (\<lambda>(obj, pos). indexOf (map key (pre @ xs)) (key obj) = int pos)
        (zip xs [length pre..<length pre + length xs]))
   = filter (\<lambda>y. key y \<notin> set (map key pre)) (keep_first key xs)"
proof (induction xs arbitrary: pre)
  case Nil
  then show ?case by simp
next
  case (Cons x xs)
  have up: "[length pre..<length pre + length (x # xs)]
        = length pre # [length (pre @ [x])..<length (pre @ [x]) + length xs]"
    by (simp add: upt_rec)
  have ih: "map fst (filter (\<lambda>(obj, pos). indexOf (map key ((pre @ [x]) @ xs)) (key obj) = int pos)
        (zip xs [length (pre @ [x])..<length (pre @ [x]) + length xs]))
     = filter (\<lambda>y. key y \<notin> set (map key (pre @ [x]))) (keep_first key xs)"
    by (rule Cons.IH)
  have hd: "indexOf (map key (pre @ x # xs)) (key x) = int (length pre)
        \<longleftrightarrow> key x \<notin> set (map key pre)"
    using indexOf_first [of "map key pre" "key x" "map key xs"] by simp
  have split_filter: "filter (\<lambda>y. key y \<notin> set (map key (pre @ [x]))) (keep_first key xs)
      = filter (\<lambda>y. key y \<notin> set (map key pre))
          (filter (\<lambda>y. key y \<noteq> key x) (keep_first key xs))"
    by (auto intro: filter_cong)
  show ?case
    unfolding up using ih hd split_filter by simp
qed

lemma removesRepeatedChildren_keep_first:
  "removesRepeatedChildren cs = keep_first child_id cs"
  using filter_pos_suffix [of child_id "[]" cs]
  by (simp add: removesRepeatedChildren_def filter_pos_def)

lemma distinct_keep_first: "distinct (map key (keep_first key xs))"
proof (induction xs)
  case Nil
  then show ?case by simp
next
  case (Cons x xs)
  then show ?case by (auto simp: distinct_map_filter)
qed

lemma keep_first_distinct_id: "distinct (map key xs) \<Longrightarrow> keep_first key xs = xs"
proof (induction xs)
  case Nil
  then show ?case by simp
next
  case (Cons x xs)
  then have "filter (\<lambda>y. key y \<noteq> key x) xs = xs"
    by (auto intro!: filter_True simp: image_iff)
  with Cons show ?case by simp
qed

lemma keep_first_idem: "keep_first key (keep_first key xs) = keep_first key xs"
  by (rule keep_first_distinct_id) (rule distinct_keep_first)

text \<open>
  Claim C10.  Whatever array is assigned through the \<^verbatim>\<open>children\<close> setter, and after
  every \<^verbatim>\<open>addChild\<close> call on any family, the ids of the stored children are pairwise
  distinct.  The setter stores the assigned array with every later entry of an id already
  seen removed; \<^verbatim>\<open>addChild\<close> stores the previous list (empty when there was none)
  followed by the new child, again with every later entry of an id already seen removed.
  In both the first occurrence of each id is the one kept; \<^verbatim>\<open>undefined\<close> is assigned
  as it is.
\<close>

theorem Family_children_ids_distinct:
  "children_distinct (set_children v f)
   \<and> children_distinct (addChild c f)
   \<and> children (set_children (Some cs) f) = Some (keep_first child_id cs)
   \<and> children (set_children None f) = None
   \<and> children (addChild c f)
       = Some (keep_first child_id
                 ((case children f of None \<Rightarrow> [] | Some cs' \<Rightarrow> cs') @ [c]))"
proof -
  have setter: "children (set_children (Some cs) f) = Some (keep_first child_id cs)"
    "children (set_children None f) = None"
    by (simp_all add: set_children_def removesRepeatedChildren_keep_first)
  have added: "children (addChild c f)
       = Some (keep_first child_id
                 ((case children f of None \<Rightarrow> [] | Some cs' \<Rightarrow> cs') @ [c]))"
    by (simp add: addChild_def set_children_def Let_def removesRepeatedChildren_keep_first
        keep_first_idem split: option.splits)
  have "children_distinct (set_children v f)"
    by (cases v) (simp_all add: children_distinct_def set_children_def distinct_keep_first
        removesRepeatedChildren_keep_first)
  moreover have "children_distinct (addChild c f)"
    unfolding children_distinct_def added by (simp add: distinct_keep_first)
  ultimately show ?thesis
    using setter added by blast
qed

section \<open>The asynchronous combinators\<close>

lemmas task_defs = await_def resolve_def reject_def throw_if_def logger_def
  call_checkExist_def call_institution_checkExist_def call_findById_def call_update_def
  call_remove_def call_publish_def

text \<open>A field of the effects that neither a computation nor its continuation changes.\<close>

lemma await_keeps:
  assumes "\<And>w. f (snd (m w)) = f w" and "\<And>v w. f (snd (k v w)) = f w"
  shows "f (snd (await m k w)) = f w"
proof (cases "m w")
  case (Pair r w')
  with assms(1) [of w] have "f w' = f w" by simp
  with Pair assms(2) show ?thesis
    by (cases r) (simp_all add: await_def)
qed

text \<open>Two runs that agree up to the awaited step and whose continuations give the same outcome.\<close>

lemma await_fst_eq:
  assumes "m' w = m w" and "\<And>v w'. fst (k' v w') = fst (k v w')"
  shows "fst (await m' k' w) = fst (await m k w)"
  using assms by (simp add: await_def split: prod.splits promise.splits)

lemma await_fst_Resolved:
  assumes "fst (await m k w) = Resolved r"
  obtains v w' where "m w = (Resolved v, w')" and "fst (k v w') = Resolved r"
  using assms by (auto simp: await_def split: prod.splits promise.splits)

text \<open>A step whose value is not used, followed by the return of a value.\<close>

lemma await_then_resolve:
  "await m (\<lambda>_. resolve v) w =
     ((case fst (m w) of Resolved _ \<Rightarrow> Resolved v | Rejected e \<Rightarrow> Rejected e | Pending \<Rightarrow> Pending),
      snd (m w))"
  by (simp add: await_def resolve_def split: prod.splits promise.splits)

lemma leaf_keeps [simp]:
  "snd (resolve v w) = w"
  "snd (reject e w) = w"
  "snd (throw_if r w) = w"
  "snd (call_checkExist env u w) = w"
  "snd (call_institution_checkExist env i w) = w"
  "snd (call_findById env s w) = w"
  by (simp_all add: task_defs split: option.splits)

lemma check_institution_keeps [simp]: "snd (check_institution env u w) = w"
  by (simp add: check_institution_def task_defs split: option.splits promise.splits)

lemma call_update_keeps [simp]:
  "bus_calls (snd (call_update env u w)) = bus_calls w"
  "store_calls (snd (call_update env u w)) = store_calls w"
  "store (snd (call_update env u w)) = store w"
  "log (snd (call_update env u w)) = log w"
  "group_removes (snd (call_update env u w)) = group_removes w"
  by (simp_all add: call_update_def)

lemma await_call_update_None:
  "repository_update env u = Resolved None \<Longrightarrow>
   await (call_update env u) k = (\<lambda>w. k None (w\<lparr>user_updates := user_updates w @ [u]\<rparr>))"
  by (rule ext) (simp add: await_def call_update_def)

lemma await_call_publish:
  "await (call_publish env ev rk) k w =
     (case eventBus_publish env ev rk of
        Resolved v \<Rightarrow> k v (w\<lparr>bus_calls := bus_calls w @ [Publish ev rk]\<rparr>)
      | Rejected e \<Rightarrow> (Rejected e, w\<lparr>bus_calls := bus_calls w @ [Publish ev rk]\<rparr>)
      | Pending \<Rightarrow> (Pending, w\<lparr>bus_calls := bus_calls w @ [Publish ev rk]\<rparr>))"
  by (simp add: await_def call_publish_def split: promise.splits)

text \<open>Collaborators that a step does not call do not matter to it.\<close>

lemma calls_env_bus [simp]:
  "call_checkExist (env\<lparr>eventBus_pubUpdateEducator := b\<rparr>) = call_checkExist env"
  "call_update (env\<lparr>eventBus_pubUpdateEducator := b\<rparr>) = call_update env"
  "call_institution_checkExist (env\<lparr>eventBus_pubUpdateEducator := b\<rparr>)
     = call_institution_checkExist env"
  "call_checkExist (env\<lparr>eventBus_publish := p\<rparr>) = call_checkExist env"
  "call_update (env\<lparr>eventBus_publish := p\<rparr>) = call_update env"
  "call_institution_checkExist (env\<lparr>eventBus_publish := p\<rparr>) = call_institution_checkExist env"
  by (simp_all add: fun_eq_iff call_checkExist_def call_update_def call_institution_checkExist_def)

lemma calls_env_store [simp]:
  "call_checkExist (env\<lparr>integrationEventRepository_create := c\<rparr>) = call_checkExist env"
  "call_institution_checkExist (env\<lparr>integrationEventRepository_create := c\<rparr>)
     = call_institution_checkExist env"
  "call_update (env\<lparr>integrationEventRepository_create := c\<rparr>) = call_update env"
  "call_publish (env\<lparr>integrationEventRepository_create := c\<rparr>) = call_publish env"
  by (simp_all add: fun_eq_iff call_update_def call_publish_def call_checkExist_def
      call_institution_checkExist_def)

lemma check_institution_env [simp]:
  "check_institution (env\<lparr>eventBus_pubUpdateEducator := b\<rparr>) = check_institution env"
  "check_institution (env\<lparr>eventBus_publish := p\<rparr>) = check_institution env"
  "check_institution (env\<lparr>integrationEventRepository_create := c\<rparr>) = check_institution env"
  by (simp_all add: fun_eq_iff check_institution_def split: option.splits)

lemma HP_checks_env [simp]:
  "HealthProfessionalService_update_checks (env\<lparr>eventBus_publish := p\<rparr>)
     = HealthProfessionalService_update_checks env"
  "HealthProfessionalService_update_checks (env\<lparr>integrationEventRepository_create := c\<rparr>)
     = HealthProfessionalService_update_checks env"
  by (simp_all add: fun_eq_iff HealthProfessionalService_update_checks_def cong del: if_weak_cong)

lemma HealthProfessionalUpdateEvent_env [simp]:
  "HealthProfessionalUpdateEvent (env\<lparr>eventBus_publish := p\<rparr>) up
     = HealthProfessionalUpdateEvent env up"
  "HealthProfessionalUpdateEvent (env\<lparr>integrationEventRepository_create := c\<rparr>) up
     = HealthProfessionalUpdateEvent env up"
  by (simp_all add: HealthProfessionalUpdateEvent_def)


section \<open>saveEvent\<close>

lemma saveEvent_store_calls:
  "store_calls (snd (saveEvent env ev w))
     = store_calls w @ [json_clone (JObject (saveEvent_json env ev))]"
  by (simp add: saveEvent_def Let_def logger_def del: json_clone.simps
      split: call.splits promise.splits)

lemma saveEvent_keeps [simp]:
  "bus_calls (snd (saveEvent env ev w)) = bus_calls w"
  "user_updates (snd (saveEvent env ev w)) = user_updates w"
  "group_removes (snd (saveEvent env ev w)) = group_removes w"
  by (simp_all add: saveEvent_def logger_def Let_def del: json_clone.simps
      split: call.splits promise.splits)

lemma saveEvent_returns:
  assumes "integrationEventRepository_create env (json_clone (JObject (saveEvent_json env ev)))
             = Returns created"
  shows "fst (saveEvent env ev w) = Resolved ()"
  using assms by (simp add: saveEvent_def Let_def del: json_clone.simps)

lemma saveEvent_resolved:
  assumes "integrationEventRepository_create env (json_clone (JObject (saveEvent_json env ev)))
             = Returns (Resolved x)"
  shows "store (snd (saveEvent env ev w))
           = store w @ [json_clone (JObject (saveEvent_json env ev))]"
  using assms by (simp add: saveEvent_def Let_def logger_def del: json_clone.simps)

lemma saveEvent_rejected:
  assumes "integrationEventRepository_create env (json_clone (JObject (saveEvent_json env ev)))
             = Returns (Rejected err)"
  shows "store (snd (saveEvent env ev w)) = store w"
    and "log (snd (saveEvent env ev w)) =
           log w @
           [(ERROR,
             [Txt ''There was an error trying to save the name event: '',
              Txt (event_name ev), Txt ''.'',
              Txt ''Error: '', Txt (message err), Txt ''. Event: '',
              Stringify (JObject (saveEvent_json env ev))])]"
  using assms by (simp_all add: saveEvent_def Let_def logger_def del: json_clone.simps)

text \<open>The call of \<^verbatim>\<open>create\<close> throws: the exception leaves \<^verbatim>\<open>saveEvent\<close>, nothing is logged.\<close>

lemma saveEvent_throws:
  assumes "integrationEventRepository_create env (json_clone (JObject (saveEvent_json env ev)))
             = Throws ex"
  shows "fst (saveEvent env ev w) = Rejected ex"
    and "log (snd (saveEvent env ev w)) = log w"
    and "store (snd (saveEvent env ev w)) = store w"
  using assms by (simp_all add: saveEvent_def Let_def del: json_clone.simps)

text \<open>The object that \<^verbatim>\<open>saveEvent\<close> builds for the event of an update, member by member.\<close>

lemma saveEvent_json_members:
  "saveEvent_json env (HealthProfessionalUpdateEvent env up) =
     [(''event_name'', JString ''HealthProfessionalUpdateEvent''),
      (''timestamp'', JDate (new_Date env)),
      (''type'', JString ''users''),
      (''user'', entity_toJSON env up),
      (''__operation'', JString ''publish''),
      (''__routing_key'', JString ''healthprofessionals.update'')]"
  by (simp add: saveEvent_json_def HealthProfessionalUpdateEvent_def new_UserUpdateEvent_def
      UserUpdateEvent_toJSON_def IntegrationEvent_toJSON_def)

lemma saved_record_fields:
  "member (json_clone (JObject (saveEvent_json env (HealthProfessionalUpdateEvent env up))))
      ''event_name'' = Some (JString ''HealthProfessionalUpdateEvent'')"
  "member (json_clone (JObject (saveEvent_json env (HealthProfessionalUpdateEvent env up))))
      ''__operation'' = Some (JString ''publish'')"
  "member (json_clone (JObject (saveEvent_json env (HealthProfessionalUpdateEvent env up))))
      ''__routing_key'' = Some (JString ''healthprofessionals.update'')"
  by (simp_all add: saveEvent_json_members)


section \<open>HealthProfessionalService.update, step by step\<close>

lemma HP_checks_world: "snd (HealthProfessionalService_update_checks env hp w) = w"
  unfolding HealthProfessionalService_update_checks_def
  by (auto intro!: await_keeps)

text \<open>
  Once the checks have passed and the repository has returned an entity, the rest of the
  update is decided by the answer of the bus.
\<close>

lemma HP_update_committed:
  assumes "fst (HealthProfessionalService_update_checks env hp w) = Resolved ()"
    and "repository_update env hp = Resolved (Some up)"
  shows "HealthProfessionalService_update env hp w =
     (let event = HealthProfessionalUpdateEvent env up;
          w2 = w\<lparr>user_updates := user_updates w @ [hp],
                 bus_calls := bus_calls w @ [Publish event ''healthprofessionals.update'']\<rparr>
      in case eventBus_publish env event ''healthprofessionals.update'' of
           Resolved published \<Rightarrow>
             if \<not> published then await (saveEvent env event) (\<lambda>_. resolve (Some up)) w2
             else (Resolved (Some up),
                   w2\<lparr>log := log w2 @
                     [(INFO, [Txt ''User of type Health Professional with ID: '',
                          Txt (template (user_id up)), Txt '' has been updated'',
                          Txt '' and published on event bus...''])]\<rparr>)
         | Rejected e \<Rightarrow> (Rejected e, w2)
         | Pending \<Rightarrow> (Pending, w2))"
proof -
  have c: "HealthProfessionalService_update_checks env hp w = (Resolved (), w)"
    using assms(1) HP_checks_world [of env hp w] by (simp add: prod_eq_iff)
  have step: "await (HealthProfessionalService_update_checks env hp) k w = k () w" for k
    by (simp add: await_def c)
  have upd: "await (call_update env hp) k w' = k (Some up) (w'\<lparr>user_updates := user_updates w' @ [hp]\<rparr>)"
    for k w'
    by (simp add: await_def call_update_def assms(2))
  show ?thesis
    unfolding HealthProfessionalService_update_def step upd
    by (simp add: await_call_publish HealthProfessionalUpdateEvent_def Let_def resolve_def
        logger_def split: promise.splits)
qed

lemma HP_update_publish_false:
  assumes "fst (HealthProfessionalService_update_checks env hp w) = Resolved ()"
    and "repository_update env hp = Resolved (Some up)"
    and "eventBus_publish env (HealthProfessionalUpdateEvent env up) ''healthprofessionals.update''
           = Resolved False"
  shows "HealthProfessionalService_update env hp w =
     await (saveEvent env (HealthProfessionalUpdateEvent env up)) (\<lambda>_. resolve (Some up))
        (w\<lparr>user_updates := user_updates w @ [hp],
           bus_calls := bus_calls w @
             [Publish (HealthProfessionalUpdateEvent env up) ''healthprofessionals.update'']\<rparr>)"
  using assms(3) by (simp add: HP_update_committed [OF assms(1,2)] Let_def)

lemma HP_no_publication:
  assumes "repository_update env u = Resolved None"
  shows "bus_calls (snd (HealthProfessionalService_update env u w)) = bus_calls w"
    and "store_calls (snd (HealthProfessionalService_update env u w)) = store_calls w"
    and "store (snd (HealthProfessionalService_update env u w)) = store w"
  unfolding HealthProfessionalService_update_def
  by (rule await_keeps, simp add: HP_checks_world,
      simp add: await_call_update_None [OF assms] resolve_def)+

text \<open>
  The call of \<^verbatim>\<open>create\<close> throws after the bus has refused the event: \<^verbatim>\<open>update\<close>
  rejects with the exception and nothing is logged.
\<close>

lemma HP_update_create_throws:
  assumes "fst (HealthProfessionalService_update_checks env hp w) = Resolved ()"
    and "repository_update env hp = Resolved (Some up)"
    and "eventBus_publish env (HealthProfessionalUpdateEvent env up) ''healthprofessionals.update''
           = Resolved False"
    and "integrationEventRepository_create env
           (json_clone (JObject (saveEvent_json env (HealthProfessionalUpdateEvent env up))))
           = Throws ex"
  shows "fst (HealthProfessionalService_update env hp w) = Rejected ex"
    and "log (snd (HealthProfessionalService_update env hp w)) = log w"
  unfolding HP_update_publish_false [OF assms(1-3)] await_then_resolve
  by (simp_all add: saveEvent_throws [OF assms(4)])


section \<open>EducatorService.update, step by step\<close>

lemma pubUpdateEducator_chain_keeps [simp]:
  "store_calls (snd (pubUpdateEducator_chain env u w)) = store_calls w"
  "store (snd (pubUpdateEducator_chain env u w)) = store w"
  by (simp_all add: pubUpdateEducator_chain_def logger_def Let_def
      split: call.splits promise.splits)

lemma pubUpdateEducator_chain_returns [simp]:
  "fst (pubUpdateEducator_chain (env\<lparr>eventBus_pubUpdateEducator := (\<lambda>u. Returns (p u))\<rparr>) up w)
     = Resolved ()"
  by (simp add: pubUpdateEducator_chain_def Let_def)

lemma Educator_store_calls_untouched:
  "store_calls (snd (EducatorService_update env e w)) = store_calls w"
  unfolding EducatorService_update_def
  by (auto intro!: await_keeps split: option.splits)

lemma Educator_store_untouched:
  "store (snd (EducatorService_update env e w)) = store w"
  unfolding EducatorService_update_def
  by (auto intro!: await_keeps split: option.splits)

lemma Educator_no_publication:
  assumes "repository_update env u = Resolved None"
  shows "bus_calls (snd (EducatorService_update env u w)) = bus_calls w"
  using assms unfolding EducatorService_update_def
  by (simp add: await_call_update_None cong del: if_weak_cong)
     (auto intro!: await_keeps split: option.splits)

lemma await_chain_returns:
  "await (pubUpdateEducator_chain (env\<lparr>eventBus_pubUpdateEducator := (\<lambda>u. Returns (p u))\<rparr>) up)
     (\<lambda>_. resolve v)
   = (\<lambda>w. (Resolved v,
            snd (pubUpdateEducator_chain
                   (env\<lparr>eventBus_pubUpdateEducator := (\<lambda>u. Returns (p u))\<rparr>) up w)))"
  by (rule ext) (simp add: await_then_resolve)

text \<open>
  The educator exists, its user name is not taken by another one, its institution is
  registered and the repository returns the updated entity: the update resolves with that
  entity, however the promise returned by the bus settles.
\<close>

lemma Educator_update_committed:
  assumes "UpdateEducatorValidator_validate env e = None"
    and "repository_checkExist env e = Resolved True"
    and "(case username e of None \<Rightarrow> False | Some n \<Rightarrow> n \<noteq> [])
           \<longrightarrow> repository_checkExist env (e\<lparr>user_id := None\<rparr>) = Resolved False"
    and "fst (check_institution env e w) = Resolved ()"
    and "repository_update env e = Resolved (Some up)"
  shows "EducatorService_update env e w =
           await (pubUpdateEducator_chain env up) (\<lambda>_. resolve (Some up))
             (w\<lparr>user_updates := user_updates w @ [e]\<rparr>)"
proof -
  have c: "check_institution env e w = (Resolved (), w)"
    using assms(4) check_institution_keeps [of env e w] by (simp add: prod_eq_iff)
  have inst: "await (check_institution env e) k w = k () w" for k
    by (simp add: await_def c)
  have upd: "await (call_update env e) k w = k (Some up) (w\<lparr>user_updates := user_updates w @ [e]\<rparr>)"
    for k
    by (simp add: await_def call_update_def assms(5))
  have name: "await
           (if (case username e of None \<Rightarrow> False | Some n \<Rightarrow> n \<noteq> []) then
              await (call_checkExist env (e\<lparr>user_id := None\<rparr>)) (\<lambda>usernameTaken.
                if usernameTaken then
                  reject (ConflictException ''Strings.EDUCATOR.ALREADY_REGISTERED'')
                else resolve ())
            else resolve ()) k w = k () w" for k
    using assms(3) by (simp add: await_def call_checkExist_def resolve_def)
  have first: "await (throw_if (UpdateEducatorValidator_validate env e)) k w = k () w" for k
    by (simp add: await_def throw_if_def resolve_def assms(1))
  have exist: "await (call_checkExist env e) k w = k True w" for k
    by (simp add: await_def call_checkExist_def assms(2))
  show ?thesis
    unfolding EducatorService_update_def first exist
    by (simp add: name inst upd)
qed

text \<open>
  The call of \<^verbatim>\<open>pubUpdateEducator\<close> itself throws: the outer \<^verbatim>\<open>catch\<close> rejects
  \<^verbatim>\<open>update\<close> with the exception and nothing is logged.
\<close>

lemma Educator_update_bus_call_throws:
  assumes "UpdateEducatorValidator_validate env e = None"
    and "repository_checkExist env e = Resolved True"
    and "(case username e of None \<Rightarrow> False | Some n \<Rightarrow> n \<noteq> [])
           \<longrightarrow> repository_checkExist env (e\<lparr>user_id := None\<rparr>) = Resolved False"
    and "fst (check_institution env e w) = Resolved ()"
    and "repository_update env e = Resolved (Some up)"
    and "eventBus_pubUpdateEducator env up = Throws ex"
  shows "fst (EducatorService_update env e w) = Rejected ex"
    and "log (snd (EducatorService_update env e w)) = log w"
  unfolding Educator_update_committed [OF assms(1-5)] await_then_resolve
  by (simp_all add: pubUpdateEducator_chain_def Let_def assms(6))


section \<open>The concrete environment, evaluated\<close>

lemmas model_defs = HealthProfessionalService_update_def HealthProfessionalService_update_checks_def
  EducatorService_update_def check_institution_def pubUpdateEducator_chain_def saveEvent_def
  saveEvent_json_def deleteChildrenGroup_body_def HealthProfessionalService_deleteChildrenGroup_def
  EducatorService_deleteChildrenGroup_def new_UserUpdateEvent_def UserUpdateEvent_toJSON_def
  IntegrationEvent_toJSON_def HealthProfessionalUpdateEvent_def template_def Let_def

lemmas instance_defs = env0_def user0_def world0_def User_toJSON_def env_bus_false_def
  env_bus_true_def env_bus_pending_def env_edu_bus_pending_def env_bus_throws_def
  env_edu_bus_down_def env_update_none_def env_store_down_def record0_def payload0_def

lemma checks_env0:
  "fst (HealthProfessionalService_update_checks env0 user0 world0) = Resolved ()"
  by (simp add: model_defs task_defs instance_defs)

lemma checks_variants:
  "fst (HealthProfessionalService_update_checks env_bus_false user0 world0) = Resolved ()"
  "fst (HealthProfessionalService_update_checks env_store_down user0 world0) = Resolved ()"
  using checks_env0 by (simp_all add: env_bus_false_def env_store_down_def)

lemma record0_eq:
  "json_clone (JObject (saveEvent_json env_bus_false (HealthProfessionalUpdateEvent env_bus_false user0)))
     = record0"
  "json_clone (JObject (saveEvent_json env_store_down (HealthProfessionalUpdateEvent env_store_down user0)))
     = record0"
  "json_clone (JObject payload0) = record0"
  by (simp_all add: model_defs instance_defs)

lemma world0_fields:
  "bus_calls world0 = []" "store_calls world0 = []" "store world0 = []" "log world0 = []"
  by (simp_all add: world0_def)


section \<open>Fallback persistence of events that could not be published\<close>

text \<open>
  Claim C1, as amended.  In \<^verbatim>\<open>HealthProfessionalService.update\<close>, whenever the checks
  pass, the repository returns an updated entity and \<^verbatim>\<open>bus.publish\<close> resolves
  \<^verbatim>\<open>false\<close>, the store's \<^verbatim>\<open>create\<close> is called once, with the serialized event to
  which \<^verbatim>\<open>__operation = "publish"\<close> and
  \<^verbatim>\<open>__routing_key = "healthprofessionals.update"\<close> have been attached.
  \<^verbatim>\<open>EducatorService.update\<close> has no integration-event store: whatever its bus does, it
  never calls \<^verbatim>\<open>create\<close> and never changes the store.
\<close>

theorem health_professional_update_persists_refused_event:
  assumes "fst (HealthProfessionalService_update_checks env hp w) = Resolved ()"
    and "repository_update env hp = Resolved (Some up)"
    and "eventBus_publish env (HealthProfessionalUpdateEvent env up) ''healthprofessionals.update''
           = Resolved False"
  shows "store_calls (snd (HealthProfessionalService_update env hp w)) =
           store_calls w @
           [json_clone (JObject
              (obj_set
                 (obj_set
                    (UserUpdateEvent_toJSON (entity_toJSON env) (HealthProfessionalUpdateEvent env up))
                    ''__operation'' (JString ''publish''))
                 ''__routing_key'' (JString ''healthprofessionals.update'')))]
         \<and> store_calls (snd (EducatorService_update env e w')) = store_calls w'
         \<and> store (snd (EducatorService_update env e w')) = store w'"
  using Educator_store_untouched [of env e w'] Educator_store_calls_untouched [of env e w']
  by (simp add: HP_update_publish_false [OF assms] await_then_resolve saveEvent_store_calls
      saveEvent_json_def del: json_clone.simps)

text \<open>
  Witness for C1: the health professional \<open>user0\<close> is updated while the bus answers
  \<^verbatim>\<open>false\<close>; the one record handed to the store is \<open>record0\<close>.
\<close>

theorem health_professional_update_persists_refused_event_witness:
  "fst (HealthProfessionalService_update_checks env_bus_false user0 world0) = Resolved ()
   \<and> repository_update env_bus_false user0 = Resolved (Some user0)
   \<and> eventBus_publish env_bus_false (HealthProfessionalUpdateEvent env_bus_false user0)
        ''healthprofessionals.update'' = Resolved False
   \<and> store_calls (snd (HealthProfessionalService_update env_bus_false user0 world0)) = [record0]"
proof -
  have h1: "fst (HealthProfessionalService_update_checks env_bus_false user0 world0) = Resolved ()"
    by (rule checks_variants)
  have h2: "repository_update env_bus_false user0 = Resolved (Some user0)"
    by (simp add: env_bus_false_def env0_def)
  have h3: "eventBus_publish env_bus_false (HealthProfessionalUpdateEvent env_bus_false user0)
        ''healthprofessionals.update'' = Resolved False"
    by (simp add: env_bus_false_def env0_def)
  from health_professional_update_persists_refused_event [OF h1 h2 h3, of user0 world0] h1 h2 h3
  show ?thesis
    unfolding record0_eq(1) [unfolded saveEvent_json_def] world0_fields by simp
qed

text \<open>
  Counterexample to C1 as stated: an educator is updated, the publication is attempted and
  fails (the promise of the bus rejects), and the store's \<^verbatim>\<open>create\<close> is never called.
\<close>

theorem educator_update_drops_failed_event:
  "fst (EducatorService_update env_edu_bus_down user0 world0) = Resolved (Some user0)
   \<and> bus_calls (snd (EducatorService_update env_edu_bus_down user0 world0)) = [PubUpdateEducator user0]
   \<and> eventBus_pubUpdateEducator env_edu_bus_down user0
       = Returns (Rejected (JsError ''bus unreachable''))
   \<and> store_calls (snd (EducatorService_update env_edu_bus_down user0 world0)) = []
   \<and> store (snd (EducatorService_update env_edu_bus_down user0 world0)) = []"
  by (simp add: model_defs task_defs instance_defs)


section \<open>The value returned and the outcome of the publication\<close>

text \<open>
  Claim C2, as amended.  \<^verbatim>\<open>EducatorService.update\<close> does not await the publication:
  two runs that differ only in how the promise returned by the bus settles (resolves,
  rejects or never settles) return the same value; when the educator exists, its user
  name is free, its institution is registered and the repository returns an updated
  entity, that value is the repository's entity; and an entity that the update returns in
  any run is the repository's.  \<^verbatim>\<open>HealthProfessionalService.update\<close> awaits
  \<^verbatim>\<open>bus.publish\<close>: with a store whose \<^verbatim>\<open>create\<close> returns a promise, two runs that
  differ only in whether the publication resolves \<^verbatim>\<open>true\<close> or \<^verbatim>\<open>false\<close> return the
  same value, which is the repository's updated entity once the checks have passed and
  the repository has returned one; while the publication does not resolve, the update
  does not return.
\<close>

theorem update_result_and_publish_outcome:
  "fst (EducatorService_update (env\<lparr>eventBus_pubUpdateEducator := (\<lambda>u. Returns (p u))\<rparr>) e w)
     = fst (EducatorService_update (env\<lparr>eventBus_pubUpdateEducator := (\<lambda>u. Returns (q u))\<rparr>) e w)
   \<and> (UpdateEducatorValidator_validate env e = None
        \<and> repository_checkExist env e = Resolved True
        \<and> ((case username e of None \<Rightarrow> False | Some n \<Rightarrow> n \<noteq> [])
             \<longrightarrow> repository_checkExist env (e\<lparr>user_id := None\<rparr>) = Resolved False)
        \<and> fst (check_institution env e w) = Resolved ()
        \<and> repository_update env e = Resolved (Some up)
        \<longrightarrow> fst (EducatorService_update
                   (env\<lparr>eventBus_pubUpdateEducator := (\<lambda>u. Returns (p u))\<rparr>) e w)
             = Resolved (Some up))
   \<and> (fst (EducatorService_update env e w) = Resolved (Some up)
        \<longrightarrow> repository_update env e = Resolved (Some up))
   \<and> ((\<forall>r. integrationEventRepository_create env r = Returns (c r))
        \<longrightarrow> fst (HealthProfessionalService_update
                   (env\<lparr>eventBus_publish := (\<lambda>ev rk. Resolved b1)\<rparr>) hp w)
             = fst (HealthProfessionalService_update
                   (env\<lparr>eventBus_publish := (\<lambda>ev rk. Resolved b2)\<rparr>) hp w))
   \<and> (fst (HealthProfessionalService_update_checks env hp w) = Resolved ()
        \<and> repository_update env hp = Resolved (Some hup)
        \<and> (\<forall>r. integrationEventRepository_create env r = Returns (c r))
        \<longrightarrow> fst (HealthProfessionalService_update
                   (env\<lparr>eventBus_publish := (\<lambda>ev rk. Resolved b1)\<rparr>) hp w) = Resolved (Some hup))
   \<and> (fst (HealthProfessionalService_update_checks env hp w) = Resolved ()
        \<and> repository_update env hp = Resolved (Some hup)
        \<longrightarrow> fst (HealthProfessionalService_update
                   (env\<lparr>eventBus_publish := (\<lambda>ev rk. Pending)\<rparr>) hp w) = Pending)"
proof -
  let ?bus = "\<lambda>b. env\<lparr>eventBus_pubUpdateEducator := (\<lambda>u. Returns (b u))\<rparr>"
  have educator_same:
    "fst (EducatorService_update (?bus p) e w) = fst (EducatorService_update (?bus q) e w)"
    unfolding EducatorService_update_def await_chain_returns
    by (auto intro!: await_fst_eq simp: resolve_def split: option.splits)
  have educator_forward: "fst (EducatorService_update (?bus p) e w) = Resolved (Some up)"
    if "UpdateEducatorValidator_validate env e = None"
      and "repository_checkExist env e = Resolved True"
      and "(case username e of None \<Rightarrow> False | Some n \<Rightarrow> n \<noteq> [])
             \<longrightarrow> repository_checkExist env (e\<lparr>user_id := None\<rparr>) = Resolved False"
      and "fst (check_institution env e w) = Resolved ()"
      and "repository_update env e = Resolved (Some up)"
  proof -
    have inst: "check_institution env e w = (Resolved (), w)"
      using that(4) check_institution_keeps [of env e w] by (simp add: prod_eq_iff)
    show ?thesis
      using that(1,2,3,5)
      by (simp add: EducatorService_update_def await_def throw_if_def resolve_def
          call_checkExist_def call_update_def pubUpdateEducator_chain_def Let_def inst)
  qed
  have educator_back: "repository_update env e = Resolved (Some up)"
    if "fst (EducatorService_update env e w) = Resolved (Some up)"
    using that unfolding EducatorService_update_def
    by (auto elim!: await_fst_Resolved simp: resolve_def call_update_def
        split: if_splits option.splits)
  have saved: "fst (saveEvent (env\<lparr>eventBus_publish := pub\<rparr>) ev w') = Resolved ()"
    if "\<forall>r. integrationEventRepository_create env r = Returns (c r)" for pub ev w'
    using that by (simp add: saveEvent_def Let_def del: json_clone.simps)
  have hp_same:
    "fst (HealthProfessionalService_update (env\<lparr>eventBus_publish := (\<lambda>ev rk. Resolved b1)\<rparr>) hp w)
       = fst (HealthProfessionalService_update
                (env\<lparr>eventBus_publish := (\<lambda>ev rk. Resolved b2)\<rparr>) hp w)"
    if "\<forall>r. integrationEventRepository_create env r = Returns (c r)"
    unfolding HealthProfessionalService_update_def
    by (intro await_fst_eq)
       (simp_all add: await_call_publish await_then_resolve saved [OF that] resolve_def Let_def
          split: option.splits)
  have checked: "HealthProfessionalService_update_checks env hp w = (Resolved (), w)"
    if "fst (HealthProfessionalService_update_checks env hp w) = Resolved ()"
    using that HP_checks_world [of env hp w] by (simp add: prod_eq_iff)
  have hp_forward:
    "fst (HealthProfessionalService_update (env\<lparr>eventBus_publish := (\<lambda>ev rk. Resolved b1)\<rparr>) hp w)
       = Resolved (Some hup)"
    if "fst (HealthProfessionalService_update_checks env hp w) = Resolved ()"
      and "repository_update env hp = Resolved (Some hup)"
      and "\<forall>r. integrationEventRepository_create env r = Returns (c r)"
    using that(2)
    by (simp add: HealthProfessionalService_update_def await_call_publish await_then_resolve
        saved [OF that(3)] resolve_def Let_def
        await_def [of "HealthProfessionalService_update_checks env hp"]
        await_def [of "call_update env hp"] call_update_def checked [OF that(1)])
  have hp_pending:
    "fst (HealthProfessionalService_update (env\<lparr>eventBus_publish := (\<lambda>ev rk. Pending)\<rparr>) hp w)
       = Pending"
    if "fst (HealthProfessionalService_update_checks env hp w) = Resolved ()"
      and "repository_update env hp = Resolved (Some hup)"
    using that(2)
    by (simp add: HealthProfessionalService_update_def await_call_publish Let_def
        await_def [of "HealthProfessionalService_update_checks env hp"]
        await_def [of "call_update env hp"] call_update_def checked [OF that(1)])
  from educator_same educator_forward educator_back hp_same hp_forward hp_pending
  show ?thesis by blast
qed

text \<open>
  Witness for C2: the update of \<open>user0\<close> passes the checks of both services, the
  repository returns \<open>user0\<close> and the store returns a promise; the health professional
  service returns \<open>user0\<close> when the bus answers \<^verbatim>\<open>false\<close> and when it answers
  \<^verbatim>\<open>true\<close>, and does not return while the bus does not answer; the educator service
  returns \<open>user0\<close> when the publication resolves and when it never settles.
\<close>

theorem update_result_and_publish_outcome_witness:
  "UpdateEducatorValidator_validate env0 user0 = None
   \<and> repository_checkExist env0 user0 = Resolved True
   \<and> repository_checkExist env0 (user0\<lparr>user_id := None\<rparr>) = Resolved False
   \<and> fst (check_institution env0 user0 world0) = Resolved ()
   \<and> fst (HealthProfessionalService_update_checks env0 user0 world0) = Resolved ()
   \<and> repository_update env0 user0 = Resolved (Some user0)
   \<and> fst (HealthProfessionalService_update env_bus_false user0 world0) = Resolved (Some user0)
   \<and> fst (HealthProfessionalService_update env_bus_true user0 world0) = Resolved (Some user0)
   \<and> fst (HealthProfessionalService_update env_bus_pending user0 world0) = Pending
   \<and> fst (EducatorService_update env0 user0 world0) = Resolved (Some user0)
   \<and> fst (EducatorService_update env_edu_bus_pending user0 world0) = Resolved (Some user0)"
proof -
  have e1: "UpdateEducatorValidator_validate env0 user0 = None"
    and e2: "repository_checkExist env0 user0 = Resolved True"
    and e3: "repository_checkExist env0 (user0\<lparr>user_id := None\<rparr>) = Resolved False"
    and e4: "fst (check_institution env0 user0 world0) = Resolved ()"
    by (simp_all add: env0_def user0_def check_institution_def task_defs)
  have h1: "fst (HealthProfessionalService_update_checks env0 user0 world0) = Resolved ()"
    by (rule checks_env0)
  have h2: "repository_update env0 user0 = Resolved (Some user0)"
    by (simp add: env0_def)
  have h3: "fst (EducatorService_update env0 user0 world0) = Resolved (Some user0)"
    by (simp add: model_defs task_defs instance_defs)
  have s: "\<forall>r. integrationEventRepository_create env0 r = Returns ((\<lambda>r. Resolved ()) r)"
    by (simp add: env0_def)
  from update_result_and_publish_outcome
         [where env = env0 and p = "\<lambda>u. Pending" and q = "\<lambda>u. Resolved ()" and e = user0
            and w = world0 and up = user0 and hup = user0 and c = "\<lambda>r. Resolved ()"
            and ?b1.0 = False and ?b2.0 = True and hp = user0]
       update_result_and_publish_outcome
         [where env = env0 and p = "\<lambda>u. Pending" and q = "\<lambda>u. Resolved ()" and e = user0
            and w = world0 and up = user0 and hup = user0 and c = "\<lambda>r. Resolved ()"
            and ?b1.0 = True and ?b2.0 = False and hp = user0]
       e1 e2 e3 e4 h1 h2 h3 s
  show ?thesis
    unfolding env_bus_false_def env_bus_true_def env_bus_pending_def env_edu_bus_pending_def
    by simp
qed

text \<open>
  Counterexample to C2 as stated: two runs of the update of the same health professional
  that differ only in the answer of the bus; with a bus that publishes the update returns
  the entity, with a bus that never answers it never returns.
\<close>

theorem health_professional_update_waits_for_publish:
  "fst (HealthProfessionalService_update env_bus_true user0 world0) = Resolved (Some user0)
   \<and> fst (HealthProfessionalService_update env_bus_pending user0 world0) = Pending"
  by (simp add: model_defs task_defs instance_defs)


section \<open>A bus that throws\<close>

text \<open>
  Claim C3 at its failing input.  The health professional \<open>user0\<close> is updated in the
  repository and \<^verbatim>\<open>bus.publish\<close> then throws: \<^verbatim>\<open>HealthProfessionalService.update\<close>
  rejects with the error of the bus, the store's \<^verbatim>\<open>create\<close> is not called and nothing is
  logged.  On the same failure \<^verbatim>\<open>EducatorService.update\<close> resolves with the entity.
\<close>

theorem health_professional_update_propagates_bus_error:
  "fst (HealthProfessionalService_update env_bus_throws user0 world0)
     = Rejected (JsError ''bus unreachable'')
   \<and> user_updates (snd (HealthProfessionalService_update env_bus_throws user0 world0)) = [user0]
   \<and> store_calls (snd (HealthProfessionalService_update env_bus_throws user0 world0)) = []
   \<and> store (snd (HealthProfessionalService_update env_bus_throws user0 world0)) = []
   \<and> log (snd (HealthProfessionalService_update env_bus_throws user0 world0)) = []
   \<and> fst (EducatorService_update env_edu_bus_down user0 world0) = Resolved (Some user0)"
  by (simp add: model_defs task_defs instance_defs)


section \<open>No publication without an updated entity\<close>

text \<open>
  Claim C4.  When the repository's \<^verbatim>\<open>update\<close> returns no entity, neither service calls
  the bus, and nothing is handed to or written into the integration-event store.
\<close>

theorem no_publication_without_updated_entity:
  assumes "repository_update env u = Resolved None"
  shows "bus_calls (snd (HealthProfessionalService_update env u w)) = bus_calls w
       \<and> store_calls (snd (HealthProfessionalService_update env u w)) = store_calls w
       \<and> store (snd (HealthProfessionalService_update env u w)) = store w
       \<and> bus_calls (snd (EducatorService_update env u w)) = bus_calls w
       \<and> store_calls (snd (EducatorService_update env u w)) = store_calls w
       \<and> store (snd (EducatorService_update env u w)) = store w"
  using HP_no_publication [OF assms, of w] Educator_no_publication [OF assms, of w]
    Educator_store_untouched [of env u w] Educator_store_calls_untouched [of env u w]
  by simp

text \<open>
  Witness for C4: both services reach the repository's \<^verbatim>\<open>update\<close> for \<open>user0\<close>, which
  returns no entity; the bus and the store stay untouched.
\<close>

theorem no_publication_without_updated_entity_witness:
  "repository_update env_update_none user0 = Resolved None
   \<and> user_updates (snd (HealthProfessionalService_update env_update_none user0 world0)) = [user0]
   \<and> bus_calls (snd (HealthProfessionalService_update env_update_none user0 world0)) = []
   \<and> store_calls (snd (HealthProfessionalService_update env_update_none user0 world0)) = []
   \<and> store (snd (HealthProfessionalService_update env_update_none user0 world0)) = []
   \<and> user_updates (snd (EducatorService_update env_update_none user0 world0)) = [user0]
   \<and> bus_calls (snd (EducatorService_update env_update_none user0 world0)) = []
   \<and> store_calls (snd (EducatorService_update env_update_none user0 world0)) = []
   \<and> store (snd (EducatorService_update env_update_none user0 world0)) = []"
proof -
  have h: "repository_update env_update_none user0 = Resolved None"
    by (simp add: env_update_none_def env0_def)
  have reached:
    "user_updates (snd (HealthProfessionalService_update env_update_none user0 world0)) = [user0]"
    "user_updates (snd (EducatorService_update env_update_none user0 world0)) = [user0]"
    by (simp_all add: model_defs task_defs instance_defs)
  from no_publication_without_updated_entity [OF h, of world0] h reached show ?thesis
    unfolding world0_fields by simp
qed


section \<open>The record persisted for a refused event\<close>

text \<open>
  Claim C5.  When a health professional is updated and \<^verbatim>\<open>bus.publish\<close> resolves
  \<^verbatim>\<open>false\<close>, the store's \<^verbatim>\<open>create\<close> is called exactly once, and a store that accepts
  the write holds exactly one more record; that record has
  \<^verbatim>\<open>event_name = "HealthProfessionalUpdateEvent"\<close>, \<^verbatim>\<open>__operation = "publish"\<close> and
  \<^verbatim>\<open>__routing_key = "healthprofessionals.update"\<close>.
\<close>

theorem refused_event_record_fields:
  assumes "fst (HealthProfessionalService_update_checks env hp w) = Resolved ()"
    and "repository_update env hp = Resolved (Some up)"
    and "eventBus_publish env (HealthProfessionalUpdateEvent env up) ''healthprofessionals.update''
           = Resolved False"
    and "r = json_clone (JObject (saveEvent_json env (HealthProfessionalUpdateEvent env up)))"
  shows "store_calls (snd (HealthProfessionalService_update env hp w)) = store_calls w @ [r]
       \<and> (integrationEventRepository_create env r = Returns (Resolved ())
            \<longrightarrow> store (snd (HealthProfessionalService_update env hp w)) = store w @ [r])
       \<and> member r ''event_name'' = Some (JString ''HealthProfessionalUpdateEvent'')
       \<and> member r ''__operation'' = Some (JString ''publish'')
       \<and> member r ''__routing_key'' = Some (JString ''healthprofessionals.update'')"
proof -
  have calls: "store_calls (snd (HealthProfessionalService_update env hp w)) = store_calls w @ [r]"
    unfolding assms(4) HP_update_publish_false [OF assms(1-3)] await_then_resolve snd_conv
      saveEvent_store_calls
    by simp
  have kept: "store (snd (HealthProfessionalService_update env hp w)) = store w @ [r]"
    if "integrationEventRepository_create env r = Returns (Resolved ())"
    using that
    unfolding assms(4) HP_update_publish_false [OF assms(1-3)] await_then_resolve snd_conv
    by (simp add: saveEvent_resolved del: json_clone.simps)
  from calls kept saved_record_fields [of env up] show ?thesis
    unfolding assms(4) by blast
qed

text \<open>
  Witness for C5: the scenario of the specification, the update of \<open>user0\<close> with a bus
  that answers \<^verbatim>\<open>false\<close> and a store that was empty; afterwards the store holds
  \<open>record0\<close> and nothing else.
\<close>

theorem refused_event_record_fields_witness:
  "fst (HealthProfessionalService_update_checks env_bus_false user0 world0) = Resolved ()
   \<and> repository_update env_bus_false user0 = Resolved (Some user0)
   \<and> eventBus_publish env_bus_false (HealthProfessionalUpdateEvent env_bus_false user0)
        ''healthprofessionals.update'' = Resolved False
   \<and> integrationEventRepository_create env_bus_false record0 = Returns (Resolved ())
   \<and> store_calls (snd (HealthProfessionalService_update env_bus_false user0 world0)) = [record0]
   \<and> store (snd (HealthProfessionalService_update env_bus_false user0 world0)) = [record0]
   \<and> member record0 ''event_name'' = Some (JString ''HealthProfessionalUpdateEvent'')
   \<and> member record0 ''__operation'' = Some (JString ''publish'')
   \<and> member record0 ''__routing_key'' = Some (JString ''healthprofessionals.update'')"
proof -
  have h1: "fst (HealthProfessionalService_update_checks env_bus_false user0 world0) = Resolved ()"
    by (rule checks_variants)
  have h2: "repository_update env_bus_false user0 = Resolved (Some user0)"
    by (simp add: env_bus_false_def env0_def)
  have h3: "eventBus_publish env_bus_false (HealthProfessionalUpdateEvent env_bus_false user0)
        ''healthprofessionals.update'' = Resolved False"
    by (simp add: env_bus_false_def env0_def)
  have h4: "integrationEventRepository_create env_bus_false record0 = Returns (Resolved ())"
    by (simp add: env_bus_false_def env0_def)
  from refused_event_record_fields [OF h1 h2 h3 record0_eq(1) [symmetric]] h1 h2 h3 h4
  show ?thesis
    unfolding world0_fields by simp
qed


section \<open>A store that rejects the write\<close>

text \<open>
  Claim C6.  When the promise of the store's \<^verbatim>\<open>create\<close> rejects while \<^verbatim>\<open>saveEvent\<close>
  persists an event the bus refused, the update still resolves with the updated entity,
  as it does however the promise of \<^verbatim>\<open>create\<close> settles; the store is unchanged, and
  exactly one line is added to the log: an error line that carries the message of the
  rejection and the whole event, that is its name, its timestamp, its type, the
  serialized entity and the two operational fields.
\<close>

theorem store_failure_is_logged_not_propagated:
  assumes "fst (HealthProfessionalService_update_checks env hp w) = Resolved ()"
    and "repository_update env hp = Resolved (Some up)"
    and "eventBus_publish env (HealthProfessionalUpdateEvent env up) ''healthprofessionals.update''
           = Resolved False"
    and "payload =
           [(''event_name'', JString ''HealthProfessionalUpdateEvent''),
            (''timestamp'', JDate (new_Date env)),
            (''type'', JString ''users''),
            (''user'', entity_toJSON env up),
            (''__operation'', JString ''publish''),
            (''__routing_key'', JString ''healthprofessionals.update'')]"
    and "integrationEventRepository_create env (json_clone (JObject payload)) = Returns (Rejected err)"
  shows "fst (HealthProfessionalService_update env hp w) = Resolved (Some up)
       \<and> fst (HealthProfessionalService_update
                (env\<lparr>integrationEventRepository_create := (\<lambda>r. Returns (c r))\<rparr>) hp w)
           = Resolved (Some up)
       \<and> store (snd (HealthProfessionalService_update env hp w)) = store w
       \<and> log (snd (HealthProfessionalService_update env hp w)) =
           log w @
           [(ERROR,
             [Txt ''There was an error trying to save the name event: '',
              Txt ''HealthProfessionalUpdateEvent'', Txt ''.'',
              Txt ''Error: '', Txt (message err), Txt ''. Event: '',
              Stringify (JObject payload)])]"
proof -
  let ?ev = "new_UserUpdateEvent ''HealthProfessionalUpdateEvent'' (Some (new_Date env)) (Some up)"
  let ?env' = "env\<lparr>integrationEventRepository_create := (\<lambda>r. Returns (c r))\<rparr>"
  have built: "saveEvent_json env ?ev = payload"
    unfolding assms(4)
    by (simp add: saveEvent_json_def new_UserUpdateEvent_def UserUpdateEvent_toJSON_def
        IntegrationEvent_toJSON_def)
  have built': "saveEvent_json ?env' ?ev = payload"
    using built by (simp add: saveEvent_json_def)
  have name: "event_name ?ev = ''HealthProfessionalUpdateEvent''"
    by (simp add: new_UserUpdateEvent_def)
  have refused: "eventBus_publish env ?ev ''healthprofessionals.update'' = Resolved False"
    using assms(3) by (simp add: HealthProfessionalUpdateEvent_def)
  have checked: "HealthProfessionalService_update_checks env hp w = (Resolved (), w)"
    using assms(1) HP_checks_world [of env hp w] by (simp add: prod_eq_iff)
  note run = HealthProfessionalService_update_def await_call_publish await_then_resolve
    await_def [of "HealthProfessionalService_update_checks env hp"]
    await_def [of "call_update env hp"] call_update_def saveEvent_def logger_def Let_def
  have "fst (HealthProfessionalService_update env hp w) = Resolved (Some up)"
    by (simp add: run checked assms(2) refused built assms(5) del: json_clone.simps)
  moreover have "fst (HealthProfessionalService_update ?env' hp w) = Resolved (Some up)"
    by (simp add: run checked assms(2) refused built' del: json_clone.simps)
  moreover have "store (snd (HealthProfessionalService_update env hp w)) = store w"
    by (simp add: run checked assms(2) refused built assms(5) del: json_clone.simps)
  moreover have "log (snd (HealthProfessionalService_update env hp w)) =
           log w @
           [(ERROR,
             [Txt ''There was an error trying to save the name event: '',
              Txt ''HealthProfessionalUpdateEvent'', Txt ''.'',
              Txt ''Error: '', Txt (message err), Txt ''. Event: '',
              Stringify (JObject payload)])]"
    by (simp add: run checked assms(2) refused built name assms(5) del: json_clone.simps)
  ultimately show ?thesis by blast
qed

text \<open>
  Witness for C6: the bus refuses the event for \<open>user0\<close> and the promise of the store
  rejects for \<open>record0\<close>, the clone of \<open>payload0\<close>; the update resolves with \<open>user0\<close>, the
  store stays empty and the log has the one error line with \<open>payload0\<close>.
\<close>

theorem store_failure_is_logged_not_propagated_witness:
  "fst (HealthProfessionalService_update_checks env_store_down user0 world0) = Resolved ()
   \<and> repository_update env_store_down user0 = Resolved (Some user0)
   \<and> eventBus_publish env_store_down (HealthProfessionalUpdateEvent env_store_down user0)
        ''healthprofessionals.update'' = Resolved False
   \<and> integrationEventRepository_create env_store_down (json_clone (JObject payload0))
        = Returns (Rejected (JsError ''store unreachable''))
   \<and> fst (HealthProfessionalService_update env_store_down user0 world0) = Resolved (Some user0)
   \<and> fst (HealthProfessionalService_update env_bus_false user0 world0) = Resolved (Some user0)
   \<and> store (snd (HealthProfessionalService_update env_store_down user0 world0)) = []
   \<and> log (snd (HealthProfessionalService_update env_store_down user0 world0)) =
       [(ERROR,
         [Txt ''There was an error trying to save the name event: '',
          Txt ''HealthProfessionalUpdateEvent'', Txt ''.'',
          Txt ''Error: '', Txt ''store unreachable'', Txt ''. Event: '',
          Stringify (JObject payload0)])]"
proof -
  have h1: "fst (HealthProfessionalService_update_checks env_store_down user0 world0) = Resolved ()"
    by (rule checks_variants)
  have h2: "repository_update env_store_down user0 = Resolved (Some user0)"
    by (simp add: env_store_down_def env_bus_false_def env0_def)
  have h3: "eventBus_publish env_store_down (HealthProfessionalUpdateEvent env_store_down user0)
        ''healthprofessionals.update'' = Resolved False"
    by (simp add: env_store_down_def env_bus_false_def env0_def)
  have h4: "payload0 =
           [(''event_name'', JString ''HealthProfessionalUpdateEvent''),
            (''timestamp'', JDate (new_Date env_store_down)),
            (''type'', JString ''users''),
            (''user'', entity_toJSON env_store_down user0),
            (''__operation'', JString ''publish''),
            (''__routing_key'', JString ''healthprofessionals.update'')]"
    by (simp add: instance_defs)
  have h5: "integrationEventRepository_create env_store_down (json_clone (JObject payload0))
        = Returns (Rejected (JsError ''store unreachable''))"
    by (simp add: env_store_down_def env_bus_false_def env0_def)
  have same: "env_store_down\<lparr>integrationEventRepository_create :=
                               (\<lambda>r. Returns ((\<lambda>r. Resolved ()) r))\<rparr> = env_bus_false"
    by (simp add: env_store_down_def env_bus_false_def env0_def)
  from store_failure_is_logged_not_propagated
         [OF h1 h2 h3 h4 h5, where c = "\<lambda>r. Resolved ()"] h1 h2 h3 h5
  show ?thesis
    unfolding world0_fields same by simp
qed


section \<open>One run of the retry task\<close>

lemma retry_event_republished:
  "republished (retry_event publish ev w)
     = republished w @ [(stored_event ev, stored_routing_key ev)]"
  by (simp add: retry_event_def Let_def split: promise.splits)

lemma retry_events_republished:
  "republished (retry_events publish evs w)
     = republished w @ map (\<lambda>ev. (stored_event ev, stored_routing_key ev)) evs"
  by (induction evs arbitrary: w) (simp_all add: retry_event_republished)

lemma remove_by_id_distinct:
  "distinct (map stored_id rs) \<Longrightarrow> remove_by_id i rs = filter (\<lambda>r. stored_id r \<noteq> i) rs"
proof (induction rs)
  case Nil
  then show ?case by simp
next
  case (Cons r rs)
  then have "stored_id r = i \<Longrightarrow> filter (\<lambda>x. stored_id x \<noteq> i) rs = rs"
    by (auto intro!: filter_True simp: image_iff)
  with Cons show ?case by simp
qed

lemma retry_event_persisted:
  assumes "distinct (map stored_id (persisted w))"
  shows "persisted (retry_event publish ev w)
     = filter (\<lambda>r. \<not> (stored_id r = stored_id ev \<and> publish ev = Resolved True)) (persisted w)"
  using assms
  by (auto simp: retry_event_def Let_def Store_deleteById_def remove_by_id_distinct
      image_iff split: promise.splits intro!: filter_True [symmetric])

lemma retry_events_persisted:
  assumes "distinct (map stored_id (persisted w))"
  shows "persisted (retry_events publish evs w)
     = filter (\<lambda>r. \<forall>ev \<in> set evs. \<not> (stored_id r = stored_id ev \<and> publish ev = Resolved True))
         (persisted w)"
  using assms
proof (induction evs arbitrary: w)
  case Nil
  then show ?case by simp
next
  case (Cons ev evs)
  have d: "distinct (map stored_id (persisted (retry_event publish ev w)))"
    using Cons.prems by (simp add: retry_event_persisted distinct_map_filter)
  show ?case
    using Cons.IH [OF d] Cons.prems
    by (auto simp: retry_event_persisted intro!: filter_cong)
qed

text \<open>
  Claim C7.  In one run of the retry task over a store whose records have distinct ids, a
  republish is attempted for every persisted event, each with its own payload and routing
  key, whatever the outcome of the others; afterwards the store holds exactly the records
  whose republish did not succeed, unchanged and in their order, so a record is deleted
  exactly when its republish succeeded.
\<close>

theorem retry_run_deletes_exactly_republished:
  assumes "distinct (map stored_id (persisted w))"
  shows "republished (EventBusTask_run publish w)
           = republished w @ map (\<lambda>ev. (stored_event ev, stored_routing_key ev)) (persisted w)
       \<and> persisted (EventBusTask_run publish w)
           = filter (\<lambda>ev. publish ev \<noteq> Resolved True) (persisted w)"
proof -
  have "filter (\<lambda>r. \<forall>ev \<in> set (persisted w).
                  \<not> (stored_id r = stored_id ev \<and> publish ev = Resolved True)) (persisted w)
        = filter (\<lambda>ev. publish ev \<noteq> Resolved True) (persisted w)"
    using assms by (auto intro!: filter_cong simp: distinct_map dest: inj_onD)
  then show ?thesis
    by (simp add: EventBusTask_run_def Store_findAll_def retry_events_republished
        retry_events_persisted [OF assms])
qed

text \<open>
  Witness for C7: three persisted events, the republish of the second one throws; all
  three are attempted, the first and the third are deleted and the second stays.
\<close>

theorem retry_run_deletes_exactly_republished_witness:
  "distinct (map stored_id (persisted retry_world0))
   \<and> republished (EventBusTask_run publish_second_throws retry_world0)
       = [(stored_event stored1, stored_routing_key stored1),
          (stored_event stored2, stored_routing_key stored2),
          (stored_event stored3, stored_routing_key stored3)]
   \<and> persisted (EventBusTask_run publish_second_throws retry_world0) = [stored2]"
proof -
  have d: "distinct (map stored_id (persisted retry_world0))"
    by (simp add: retry_world0_def stored1_def stored2_def stored3_def)
  have f: "filter (\<lambda>ev. publish_second_throws ev \<noteq> Resolved True) (persisted retry_world0)
             = [stored2]"
    by (simp add: retry_world0_def stored1_def stored2_def stored3_def publish_second_throws_def)
  have r: "republished retry_world0 = []" "persisted retry_world0 = [stored1, stored2, stored3]"
    by (simp_all add: retry_world0_def)
  from retry_run_deletes_exactly_republished [OF d, of publish_second_throws] d show ?thesis
    unfolding f unfolding r by simp
qed


section \<open>deleteChildrenGroup for a user that does not exist\<close>

text \<open>
  Claim C9, as amended.  When both ids pass \<^verbatim>\<open>ObjectIdValidator.validate\<close> and
  \<^verbatim>\<open>findById\<close> resolves with no user, \<^verbatim>\<open>deleteChildrenGroup\<close> of either service
  resolves \<^verbatim>\<open>true\<close> and has no effect at all.  When the validator throws for the
  user id, or accepts it and throws for the id of the children group, the call rejects
  with the exception of the validator and has no effect.  Whenever \<^verbatim>\<open>findById\<close> would
  find no user for the id, the call has no effect, whatever the validator says: no
  children group is removed and no user record is updated.
\<close>

theorem deleteChildrenGroup_unknown_user:
  "(ObjectIdValidator_validate env userId None = None
      \<and> ObjectIdValidator_validate env childrenGroupId None = None
      \<and> repository_findById env userId = Resolved None
    \<longrightarrow> HealthProfessionalService_deleteChildrenGroup env userId childrenGroupId w
          = (Resolved True, w))
   \<and> (ObjectIdValidator_validate env userId None = Some ex
    \<longrightarrow> HealthProfessionalService_deleteChildrenGroup env userId childrenGroupId w
          = (Rejected ex, w))
   \<and> (ObjectIdValidator_validate env userId None = None
      \<and> ObjectIdValidator_validate env childrenGroupId None = Some ex
    \<longrightarrow> HealthProfessionalService_deleteChildrenGroup env userId childrenGroupId w
          = (Rejected ex, w))
   \<and> (ObjectIdValidator_validate env userId (Some ''Strings.EDUCATOR.PARAM_ID_NOT_VALID_FORMAT'')
        = None
      \<and> ObjectIdValidator_validate env childrenGroupId
           (Some ''Strings.CHILDREN_GROUP.PARAM_ID_NOT_VALID_FORMAT'') = None
      \<and> repository_findById env userId = Resolved None
    \<longrightarrow> EducatorService_deleteChildrenGroup env userId childrenGroupId w
          = (Resolved True, w))
   \<and> (ObjectIdValidator_validate env userId (Some ''Strings.EDUCATOR.PARAM_ID_NOT_VALID_FORMAT'')
        = Some ex
    \<longrightarrow> EducatorService_deleteChildrenGroup env userId childrenGroupId w
          = (Rejected ex, w))
   \<and> (ObjectIdValidator_validate env userId (Some ''Strings.EDUCATOR.PARAM_ID_NOT_VALID_FORMAT'')
        = None
      \<and> ObjectIdValidator_validate env childrenGroupId
           (Some ''Strings.CHILDREN_GROUP.PARAM_ID_NOT_VALID_FORMAT'') = Some ex
    \<longrightarrow> EducatorService_deleteChildrenGroup env userId childrenGroupId w
          = (Rejected ex, w))
   \<and> (repository_findById env userId = Resolved None
    \<longrightarrow> snd (HealthProfessionalService_deleteChildrenGroup env userId childrenGroupId w) = w
      \<and> snd (EducatorService_deleteChildrenGroup env userId childrenGroupId w) = w)"
  by (simp add: HealthProfessionalService_deleteChildrenGroup_def
      EducatorService_deleteChildrenGroup_def deleteChildrenGroup_body_def task_defs
      split: option.splits)

text \<open>
  Witness for C9: two well-formed ids, none of which is the id of a user; the malformed
  user id \<^verbatim>\<open>123\<close>; and a well-formed user id with the malformed group id \<^verbatim>\<open>123\<close>.
\<close>

theorem deleteChildrenGroup_unknown_user_witness:
  "ObjectIdValidator_validate env0 ''5a62be07de34500146d9c544'' None = None
   \<and> ObjectIdValidator_validate env0 ''5a62be07d6f33400146c9b61'' None = None
   \<and> ObjectIdValidator_validate env0 ''5a62be07de34500146d9c544''
        (Some ''Strings.EDUCATOR.PARAM_ID_NOT_VALID_FORMAT'') = None
   \<and> ObjectIdValidator_validate env0 ''5a62be07d6f33400146c9b61''
        (Some ''Strings.CHILDREN_GROUP.PARAM_ID_NOT_VALID_FORMAT'') = None
   \<and> repository_findById env0 ''5a62be07de34500146d9c544'' = Resolved None
   \<and> HealthProfessionalService_deleteChildrenGroup env0 ''5a62be07de34500146d9c544''
        ''5a62be07d6f33400146c9b61'' world0 = (Resolved True, world0)
   \<and> EducatorService_deleteChildrenGroup env0 ''5a62be07de34500146d9c544''
        ''5a62be07d6f33400146c9b61'' world0 = (Resolved True, world0)
   \<and> ObjectIdValidator_validate env0 ''123'' None
       = Some (ValidationException ''Strings.ERROR_MESSAGE.UUID_NOT_VALID_FORMAT''
                 ''Strings.ERROR_MESSAGE.UUID_NOT_VALID_FORMAT_DESC'')
   \<and> HealthProfessionalService_deleteChildrenGroup env0 ''123'' ''5a62be07d6f33400146c9b61''
        world0
       = (Rejected (ValidationException ''Strings.ERROR_MESSAGE.UUID_NOT_VALID_FORMAT''
                      ''Strings.ERROR_MESSAGE.UUID_NOT_VALID_FORMAT_DESC''), world0)
   \<and> HealthProfessionalService_deleteChildrenGroup env0 ''5a62be07de34500146d9c544'' ''123''
        world0
       = (Rejected (ValidationException ''Strings.ERROR_MESSAGE.UUID_NOT_VALID_FORMAT''
                      ''Strings.ERROR_MESSAGE.UUID_NOT_VALID_FORMAT_DESC''), world0)
   \<and> ObjectIdValidator_validate env0 ''123'' (Some ''Strings.EDUCATOR.PARAM_ID_NOT_VALID_FORMAT'')
       = Some (ValidationException ''Strings.EDUCATOR.PARAM_ID_NOT_VALID_FORMAT''
                 ''Strings.ERROR_MESSAGE.UUID_NOT_VALID_FORMAT_DESC'')
   \<and> EducatorService_deleteChildrenGroup env0 ''123'' ''5a62be07d6f33400146c9b61'' world0
       = (Rejected (ValidationException ''Strings.EDUCATOR.PARAM_ID_NOT_VALID_FORMAT''
                      ''Strings.ERROR_MESSAGE.UUID_NOT_VALID_FORMAT_DESC''), world0)
   \<and> ObjectIdValidator_validate env0 ''123''
        (Some ''Strings.CHILDREN_GROUP.PARAM_ID_NOT_VALID_FORMAT'')
       = Some (ValidationException ''Strings.CHILDREN_GROUP.PARAM_ID_NOT_VALID_FORMAT''
                 ''Strings.ERROR_MESSAGE.UUID_NOT_VALID_FORMAT_DESC'')
   \<and> EducatorService_deleteChildrenGroup env0 ''5a62be07de34500146d9c544'' ''123'' world0
       = (Rejected (ValidationException ''Strings.CHILDREN_GROUP.PARAM_ID_NOT_VALID_FORMAT''
                      ''Strings.ERROR_MESSAGE.UUID_NOT_VALID_FORMAT_DESC''), world0)"
proof -
  have v: "ObjectIdValidator_validate env0 ''5a62be07de34500146d9c544'' m = None"
    "ObjectIdValidator_validate env0 ''5a62be07d6f33400146c9b61'' m = None" for m
    by (simp_all add: env0_def)
  have bad: "ObjectIdValidator_validate env0 ''123'' None
       = Some (ValidationException ''Strings.ERROR_MESSAGE.UUID_NOT_VALID_FORMAT''
                 ''Strings.ERROR_MESSAGE.UUID_NOT_VALID_FORMAT_DESC'')"
    "ObjectIdValidator_validate env0 ''123'' (Some ''Strings.EDUCATOR.PARAM_ID_NOT_VALID_FORMAT'')
       = Some (ValidationException ''Strings.EDUCATOR.PARAM_ID_NOT_VALID_FORMAT''
                 ''Strings.ERROR_MESSAGE.UUID_NOT_VALID_FORMAT_DESC'')"
    "ObjectIdValidator_validate env0 ''123''
        (Some ''Strings.CHILDREN_GROUP.PARAM_ID_NOT_VALID_FORMAT'')
       = Some (ValidationException ''Strings.CHILDREN_GROUP.PARAM_ID_NOT_VALID_FORMAT''
                 ''Strings.ERROR_MESSAGE.UUID_NOT_VALID_FORMAT_DESC'')"
    by (simp_all add: env0_def)
  have f: "repository_findById env0 ''5a62be07de34500146d9c544'' = Resolved None"
    by (simp add: env0_def)
  note t = deleteChildrenGroup_unknown_user [where env = env0 and w = world0]
  from t [where userId = "''5a62be07de34500146d9c544''"
            and childrenGroupId = "''5a62be07d6f33400146c9b61''"
            and ex = "JsError []"]
       t [where userId = "''123''" and childrenGroupId = "''5a62be07d6f33400146c9b61''"
            and ex = "ValidationException ''Strings.ERROR_MESSAGE.UUID_NOT_VALID_FORMAT''
                        ''Strings.ERROR_MESSAGE.UUID_NOT_VALID_FORMAT_DESC''"]
       t [where userId = "''123''" and childrenGroupId = "''5a62be07d6f33400146c9b61''"
            and ex = "ValidationException ''Strings.EDUCATOR.PARAM_ID_NOT_VALID_FORMAT''
                        ''Strings.ERROR_MESSAGE.UUID_NOT_VALID_FORMAT_DESC''"]
       t [where userId = "''5a62be07de34500146d9c544''" and childrenGroupId = "''123''"
            and ex = "ValidationException ''Strings.ERROR_MESSAGE.UUID_NOT_VALID_FORMAT''
                        ''Strings.ERROR_MESSAGE.UUID_NOT_VALID_FORMAT_DESC''"]
       t [where userId = "''5a62be07de34500146d9c544''" and childrenGroupId = "''123''"
            and ex = "ValidationException ''Strings.CHILDREN_GROUP.PARAM_ID_NOT_VALID_FORMAT''
                        ''Strings.ERROR_MESSAGE.UUID_NOT_VALID_FORMAT_DESC''"]
       v bad f
  show ?thesis by simp
qed

text \<open>
  Counterexample to C9 as stated: the id \<^verbatim>\<open>123\<close> is the id of no user, and
  \<^verbatim>\<open>deleteChildrenGroup\<close> rejects with the validation error instead of resolving
  \<^verbatim>\<open>true\<close>.
\<close>

theorem deleteChildrenGroup_malformed_id_rejects:
  "repository_findById env0 ''123'' = Resolved None
   \<and> fst (EducatorService_deleteChildrenGroup env0 ''123'' ''5a62be07de34500146d9c544'' world0)
       = Rejected (ValidationException ''Strings.EDUCATOR.PARAM_ID_NOT_VALID_FORMAT''
                     ''Strings.ERROR_MESSAGE.UUID_NOT_VALID_FORMAT_DESC'')
   \<and> fst (HealthProfessionalService_deleteChildrenGroup env0 ''123'' ''5a62be07de34500146d9c544''
            world0)
       = Rejected (ValidationException ''Strings.ERROR_MESSAGE.UUID_NOT_VALID_FORMAT''
                     ''Strings.ERROR_MESSAGE.UUID_NOT_VALID_FORMAT_DESC'')"
  by (simp add: model_defs task_defs instance_defs)

end
